theory Spec2Isabelle
  imports Main
begin

section \<open>Overview\<close>

text \<open>
  A model of the session-token plugin: the session manager \<open>createAuthCore\<close> (auth.js,
  with the two places where the TypeScript version of the same function differs), the
  Axios hooks of \<open>setupInterceptors\<close> (interceptors.ts) and the router hook of
  \<open>setupGuards\<close> (guards.js).

  An asynchronous function is a function from the world before the call to its outcome
  and the world after it; the outcome is \<open>Inr\<close> of the returned value or \<open>Inl\<close> of the
  thrown one. The world holds the reactive refs, the contents of the storage backend and
  a trace of what was handed to the collaborators. One call is followed from start to
  end: no other task changes the session while the call waits.

  The collaborators are outside the plugin. An HTTP call and \<open>router.replace\<close> may
  fail. The value an HTTP call rejects with is an error object or \<open>null\<close>: the Axios
  instance handed to \<open>createAuthCore\<close> carries the plugin's own response hook
  (\<open>setupInterceptors\<close> in index.ts), and that hook rejects with whatever
  \<open>refreshAccessToken\<close> threw, which is \<open>null\<close> when \<open>maxRetries\<close> is not positive.
  A storage method and a user-supplied callback may be missing (the source calls
  them through \<open>?.\<close>); one that is there returns normally. Console output is left out,
  except the \<open>console.log(error)\<close> of \<open>logout\<close>.
\<close>

section \<open>JavaScript values used by the session manager\<close>

text \<open>
  A token is \<open>string | null\<close> in the source. \<open>None\<close> stands for an absent value
  (\<open>null\<close> or \<open>undefined\<close>); \<open>Some s\<close> is the string \<open>s\<close>. The source never tests a
  token for being a string: every test is JavaScript truthiness (\<open>if (newToken)\<close>,
  \<open>!refreshToken.value\<close>, \<open>a || b\<close>), under which the empty string counts as absent.
\<close>

type_synonym tok = "string option"

definition truthy :: "tok \<Rightarrow> bool" where
  "truthy v = (case v of None \<Rightarrow> False | Some s \<Rightarrow> s \<noteq> [])"

text \<open>\<open>a || b\<close>: the left operand when it is truthy, else the right operand as it is.\<close>

definition js_or :: "tok \<Rightarrow> tok \<Rightarrow> tok" where
  "js_or a b = (if truthy a then a else b)"

text \<open>A JSON object with string fields; a field that is missing reads as \<open>None\<close>.\<close>

type_synonym body = "string \<rightharpoonup> string"

section \<open>Requests, errors and the observable trace\<close>

datatype http_method = GET | POST

record request =
  verb :: http_method
  url :: string
  payload :: body
  contentType :: "string option"
  authorization :: "string option"
  skipAuthRefresh :: bool
  retry :: bool

record err_response =
  status :: int
  detail :: tok
  message :: tok

text \<open>
  An error object: \<open>new Error(msg)\<close>, an Axios error with its optional \<open>response\<close>
  and its optional \<open>config\<close> (the request that failed), or the \<open>TypeError\<close> that
  JavaScript raises when a property of \<open>null\<close> is read. A thrown or rejected value is
  an \<open>error option\<close>: \<open>Some e\<close> is the error object \<open>e\<close>, \<open>None\<close> is \<open>null\<close>.
\<close>

datatype error =
    Error string
  | AxiosError string "err_response option" "request option"
  | TypeError string

fun response :: "error \<Rightarrow> err_response option" where
  "response (Error m) = None"
| "response (AxiosError c r q) = r"
| "response (TypeError m) = None"

fun config :: "error \<Rightarrow> request option" where
  "config (Error m) = None"
| "config (AxiosError c r q) = q"
| "config (TypeError m) = None"

text \<open>Reading \<open>v.response\<close> when \<open>v\<close> is \<open>null\<close>.\<close>

definition null_response :: error where
  "null_response = TypeError ''Cannot read properties of null (reading response)''"

record location =
  loc_name :: "string option"
  loc_path :: "string option"
  loc_query :: body
  loc_replace :: bool

datatype callback =
    OnLogin "body option"
  | OnError string error
  | OnLogout
  | OnFetchUser body
  | OnSessionExpired

text \<open>
  What a collaborator is handed: a request, a delay, a navigation, a callback call, a
  console line. \<open>RefreshCalled\<close> and \<open>Replayed\<close> mark the two calls the error hook makes
  on the objects it is given.
\<close>

datatype event =
    HttpSent request
  | Slept int
  | RouterReplace location
  | Called callback
  | ConsoleLog error
  | RefreshCalled
  | Replayed request

section \<open>Session state and the storage backend\<close>

record auth_state =
  token :: tok
  refreshToken :: tok
  user :: "body option"
  loading :: bool
  authenticated :: bool

type_synonym localStorage = "string \<rightharpoonup> string"

text \<open>
  The pluggable storage object. The source calls every method through \<open>?.\<close>, so each
  method may be missing. A method that is there acts on the backend's key-value area
  and returns normally. \<open>defaultStorage\<close> is the one of auth.js, on \<open>localStorage\<close>.
\<close>

record storage =
  getToken :: "(localStorage \<Rightarrow> tok) option"
  setToken :: "(string \<Rightarrow> localStorage \<Rightarrow> localStorage) option"
  removeToken :: "(localStorage \<Rightarrow> localStorage) option"
  getRefreshToken :: "(localStorage \<Rightarrow> tok) option"
  setRefreshToken :: "(string \<Rightarrow> localStorage \<Rightarrow> localStorage) option"
  removeRefreshToken :: "(localStorage \<Rightarrow> localStorage) option"

definition defaultStorage :: storage where
  "defaultStorage =
     \<lparr> getToken = Some (\<lambda>ls. ls ''token''),
       setToken = Some (\<lambda>t ls. ls(''token'' \<mapsto> t)),
       removeToken = Some (\<lambda>ls. ls(''token'' := None)),
       getRefreshToken = Some (\<lambda>ls. ls ''refresh_token''),
       setRefreshToken = Some (\<lambda>t ls. ls(''refresh_token'' \<mapsto> t)),
       removeRefreshToken = Some (\<lambda>ls. ls(''refresh_token'' := None)) \<rparr>"

text \<open>
  The world a call runs in: the reactive refs, the storage backend's contents, the
  number of HTTP exchanges made so far, and the trace of what the collaborators saw,
  each entry with the session state at that moment.
\<close>

record world =
  auth :: auth_state
  store :: localStorage
  net :: nat
  trace :: "(event \<times> auth_state) list"

text \<open>
  The closure of \<open>createAuthCore(http, router, options)\<close>. \<open>http n req\<close> is the outcome
  of the \<open>n\<close>-th HTTP exchange when it carries \<open>req\<close>: \<open>Inr\<close> of the response body, or
  \<open>Inl\<close> of the value the call rejects with (\<open>None\<close> for \<open>null\<close>); \<open>router l\<close> is \<open>None\<close> when
  \<open>router.replace(l)\<close> resolves and \<open>Some e\<close> when it rejects with \<open>e\<close>. A callback
  option is \<open>True\<close> when the callback was supplied; an invocation is recorded in the
  trace, and the callback itself is taken to return normally without calling back into
  the session manager. \<open>onFetchUser\<close> is passed by \<open>createAuth\<close> (index.ts) and read by the
  TypeScript version only; auth.js gives \<open>loginRouteName\<close> no default.
\<close>

record core =
  http :: "nat \<Rightarrow> request \<Rightarrow> error option + body"
  router :: "location \<Rightarrow> error option"
  endpoint_login :: string
  endpoint_refresh :: string
  endpoint_user :: string
  storage :: storage
  tokenKey :: string
  refreshTokenKey :: string
  maxRetries :: int
  onError :: bool
  onLogin :: bool
  onLogout :: bool
  onFetchUser :: bool
  loginRouteName :: "string option"

section \<open>Asynchronous code as state passing with exceptions\<close>

type_synonym ('e, 'a) prog = "world \<Rightarrow> ('e + 'a) \<times> world"

definition ret :: "'a \<Rightarrow> ('e, 'a) prog" where
  "ret x = (\<lambda>w. (Inr x, w))"

definition throw :: "'e \<Rightarrow> ('e, 'a) prog" where
  "throw e = (\<lambda>w. (Inl e, w))"

definition bnd :: "('e, 'a) prog \<Rightarrow> ('a \<Rightarrow> ('e, 'b) prog) \<Rightarrow> ('e, 'b) prog" where
  "bnd m f = (\<lambda>w. case m w of (Inl e, w') \<Rightarrow> (Inl e, w') | (Inr x, w') \<Rightarrow> f x w')"

definition seq :: "('e, unit) prog \<Rightarrow> ('e, 'b) prog \<Rightarrow> ('e, 'b) prog" where
  "seq m k = bnd m (\<lambda>_. k)"

definition tryCatch :: "('e, 'a) prog \<Rightarrow> ('e \<Rightarrow> ('f, 'a) prog) \<Rightarrow> ('f, 'a) prog" where
  "tryCatch m h = (\<lambda>w. case m w of (Inl e, w') \<Rightarrow> h e w' | (Inr x, w') \<Rightarrow> (Inr x, w'))"

text \<open>\<open>try { m } finally { f }\<close> where \<open>f\<close> is a plain state update.\<close>

definition tryFinally :: "('e, 'a) prog \<Rightarrow> (world \<Rightarrow> world) \<Rightarrow> ('e, 'a) prog" where
  "tryFinally m f = (\<lambda>w. case m w of (r, w') \<Rightarrow> (r, f w'))"

definition exec :: "(world \<Rightarrow> world) \<Rightarrow> ('e, unit) prog" where
  "exec f = (\<lambda>w. (Inr (), f w))"

definition emit :: "event \<Rightarrow> world \<Rightarrow> world" where
  "emit ev w = w\<lparr>trace := trace w @ [(ev, auth w)]\<rparr>"

text \<open>\<open>cb?.(args)\<close>: nothing happens when the callback was not supplied.\<close>

definition notify :: "bool \<Rightarrow> callback \<Rightarrow> world \<Rightarrow> world" where
  "notify supplied cb w = (if supplied then emit (Called cb) w else w)"

text \<open>\<open>await http(req)\<close>: the request is seen by the collaborator, which answers.\<close>

definition sent :: "request \<Rightarrow> world \<Rightarrow> world" where
  "sent req w = (emit (HttpSent req) w)\<lparr>net := Suc (net w)\<rparr>"

definition http_call :: "core \<Rightarrow> request \<Rightarrow> (error option, body) prog" where
  "http_call c req = (\<lambda>w. (http c (net w) req, sent req w))"

section \<open>The token store (auth.js)\<close>

definition set_loading :: "bool \<Rightarrow> world \<Rightarrow> world" where
  "set_loading b w = w\<lparr>auth := (auth w)\<lparr>loading := b\<rparr>\<rparr>"

definition set_authenticated :: "bool \<Rightarrow> world \<Rightarrow> world" where
  "set_authenticated b w = w\<lparr>auth := (auth w)\<lparr>authenticated := b\<rparr>\<rparr>"

definition set_user :: "body option \<Rightarrow> world \<Rightarrow> world" where
  "set_user u w = w\<lparr>auth := (auth w)\<lparr>user := u\<rparr>\<rparr>"

text \<open>\<open>storage.setX?.(v)\<close> and \<open>storage.removeX?.()\<close>.\<close>

definition storage_set :: "(string \<Rightarrow> localStorage \<Rightarrow> localStorage) option \<Rightarrow> string \<Rightarrow> world \<Rightarrow> world" where
  "storage_set m v w = (case m of None \<Rightarrow> w | Some f \<Rightarrow> w\<lparr>store := f v (store w)\<rparr>)"

definition storage_remove :: "(localStorage \<Rightarrow> localStorage) option \<Rightarrow> world \<Rightarrow> world" where
  "storage_remove m w = (case m of None \<Rightarrow> w | Some f \<Rightarrow> w\<lparr>store := f (store w)\<rparr>)"

text \<open>\<open>if (v) { storage.setX?.(v) } else { storage.removeX?.() }\<close>\<close>

definition persist ::
  "(string \<Rightarrow> localStorage \<Rightarrow> localStorage) option \<Rightarrow> (localStorage \<Rightarrow> localStorage) option
     \<Rightarrow> tok \<Rightarrow> world \<Rightarrow> world" where
  "persist setter remover v w =
     (case v of
        Some s \<Rightarrow> if s \<noteq> [] then storage_set setter s w else storage_remove remover w
      | None \<Rightarrow> storage_remove remover w)"

definition setTokens :: "core \<Rightarrow> tok \<Rightarrow> tok \<Rightarrow> world \<Rightarrow> world" where
  "setTokens c newToken newRefresh w =
     (let w1 = w\<lparr>auth := (auth w)\<lparr>token := newToken, refreshToken := newRefresh\<rparr>\<rparr>;
          w2 = persist (setToken (storage c)) (removeToken (storage c)) newToken w1
      in persist (setRefreshToken (storage c)) (removeRefreshToken (storage c)) newRefresh w2)"

definition clearAuth :: "core \<Rightarrow> world \<Rightarrow> world" where
  "clearAuth c w =
     (let w1 = w\<lparr>auth := (auth w)\<lparr>token := None, refreshToken := None, user := None,
                                  authenticated := False\<rparr>\<rparr>;
          w2 = storage_remove (removeToken (storage c)) w1
      in storage_remove (removeRefreshToken (storage c)) w2)"

text \<open>
  The state \<open>createAuthCore\<close> starts from: both tokens read from storage with
  \<open>storage.getX?.() || null\<close>, no user, loading, not authenticated.
\<close>

definition read_slot :: "(localStorage \<Rightarrow> tok) option \<Rightarrow> localStorage \<Rightarrow> tok" where
  "read_slot g ls = js_or (case g of None \<Rightarrow> None | Some f \<Rightarrow> f ls) None"

definition initial_state :: "storage \<Rightarrow> localStorage \<Rightarrow> auth_state" where
  "initial_state st ls =
     \<lparr> token = read_slot (getToken st) ls,
       refreshToken = read_slot (getRefreshToken st) ls,
       user = None, loading = True, authenticated = False \<rparr>"

section \<open>The session manager (auth.js)\<close>

definition gets :: "(world \<Rightarrow> 'a) \<Rightarrow> ('e, 'a) prog" where
  "gets f = (\<lambda>w. (Inr (f w), w))"

definition user_request :: "core \<Rightarrow> request" where
  "user_request c =
     \<lparr> verb = GET, url = endpoint_user c, payload = Map.empty, contentType = None,
       authorization = None, skipAuthRefresh = False, retry = False \<rparr>"

definition login_request :: "core \<Rightarrow> body \<Rightarrow> request" where
  "login_request c credentials =
     \<lparr> verb = POST, url = endpoint_login c, payload = credentials,
       contentType = Some ''application/json'', authorization = None,
       skipAuthRefresh = False, retry = False \<rparr>"

definition refresh_request :: "core \<Rightarrow> tok \<Rightarrow> request" where
  "refresh_request c rt =
     \<lparr> verb = POST, url = endpoint_refresh c, payload = Map.empty(refreshTokenKey c := rt),
       contentType = None, authorization = None, skipAuthRefresh = True, retry = False \<rparr>"

text \<open>
  \<open>fetchUser\<close> of auth.js: try \<open>{ loading = true; GET; user = data; authenticated = true;
  return data }\<close> catch \<open>{ clearAuth(); throw error }\<close> finally \<open>{ loading = false }\<close>.
\<close>

definition fetchUser :: "core \<Rightarrow> (error option, body) prog" where
  "fetchUser c =
     tryFinally
       (tryCatch
          (seq (exec (set_loading True))
          (bnd (http_call c (user_request c)) (\<lambda>data.
           seq (exec (set_user (Some data)))
          (seq (exec (set_authenticated True))
               (ret data)))))
          (\<lambda>error. seq (exec (clearAuth c)) (throw error)))
       (set_loading False)"

text \<open>\<open>data[tokenKey] || data.access || data.token\<close>, and the same for the refresh token.\<close>

definition extract_access :: "core \<Rightarrow> body \<Rightarrow> tok" where
  "extract_access c data = js_or (js_or (data (tokenKey c)) (data ''access'')) (data ''token'')"

definition extract_refresh :: "core \<Rightarrow> body \<Rightarrow> tok" where
  "extract_refresh c data =
     js_or (js_or (data (refreshTokenKey c)) (data ''refresh'')) (data ''refresh_token'')"

text \<open>
  \<open>error.response?.data?.detail || error.response?.data?.message || "Erro ao realizar login"\<close>
  for a caught value that is an error object.
\<close>

definition login_message :: "error \<Rightarrow> string" where
  "login_message e =
     (case js_or (case response e of None \<Rightarrow> None | Some r \<Rightarrow> detail r)
                 (case response e of None \<Rightarrow> None | Some r \<Rightarrow> message r) of
        Some s \<Rightarrow> if s \<noteq> [] then s else ''Erro ao realizar login''
      | None \<Rightarrow> ''Erro ao realizar login'')"

datatype login_result =
    Success "body option"
  | Failure error string

text \<open>
  \<open>login\<close> of auth.js. The \<open>catch\<close> block reads \<open>error.response\<close> of the caught value
  without testing the value itself (\<open>?.\<close> guards only what follows \<open>response\<close>): when the
  caught value is \<open>null\<close> that read throws a \<open>TypeError\<close> out of the \<open>catch\<close> block,
  before the error callback is reached and before anything is returned. The \<open>finally\<close>
  block runs in every case.
\<close>

definition login :: "core \<Rightarrow> body \<Rightarrow> (error option, login_result) prog" where
  "login c credentials =
     tryFinally
       (tryCatch
          (seq (exec (set_loading True))
          (bnd (http_call c (login_request c credentials)) (\<lambda>data.
           let accessToken = extract_access c data;
               refresh = extract_refresh c data
           in seq (exec (setTokens c accessToken refresh))
             (bnd (fetchUser c) (\<lambda>_.
              bnd (gets (\<lambda>w. user (auth w))) (\<lambda>u.
              seq (exec (notify (onLogin c) (OnLogin u)))
             (bnd (gets (\<lambda>w. user (auth w))) (\<lambda>u'.
              ret (Success u')))))))))
          (\<lambda>error.
             case error of
               None \<Rightarrow> throw (Some null_response)
             | Some e \<Rightarrow>
                 let message = login_message e
                 in seq (exec (notify (onError c) (OnError message e)))
                        (ret (Failure e message))))
       (set_loading False)"

text \<open>\<open>await router.replace(l)\<close>\<close>

definition router_replace :: "core \<Rightarrow> location \<Rightarrow> (error, unit) prog" where
  "router_replace c l =
     (\<lambda>w. let w' = emit (RouterReplace l) w
          in case router c l of None \<Rightarrow> (Inr (), w') | Some e \<Rightarrow> (Inl e, w'))"

definition logout_location :: "string option \<Rightarrow> location" where
  "logout_location n =
     \<lparr> loc_name = n, loc_path = None, loc_query = Map.empty(''logout'' \<mapsto> ''true''),
       loc_replace = True \<rparr>"

text \<open>
  \<open>logout\<close> of auth.js: try \<open>{ authenticated = false; await router.replace(...);
  clearAuth() }\<close> catch \<open>{ console.log(error) }\<close>. The option \<open>onLogout\<close> is read from
  the options but the function does not use it. The query marker is \<open>logout: true\<close>,
  which the router carries as the query value \<open>true\<close>.
\<close>

definition logout :: "core \<Rightarrow> (error, unit) prog" where
  "logout c =
     tryCatch
       (seq (exec (set_authenticated False))
       (seq (router_replace c (logout_location (loginRouteName c)))
            (exec (clearAuth c))))
       (\<lambda>error. exec (emit (ConsoleLog error)))"

text \<open>One pass of the body of the retry loop: the \<open>try\<close> block of \<open>refreshAccessToken\<close>.\<close>

definition refresh_attempt :: "core \<Rightarrow> (error option, tok) prog" where
  "refresh_attempt c =
     bnd (gets (\<lambda>w. refreshToken (auth w))) (\<lambda>rt.
     bnd (http_call c (refresh_request c rt)) (\<lambda>data.
     let newToken = extract_access c data
     in bnd (gets (\<lambda>w. refreshToken (auth w))) (\<lambda>rt'.
        seq (exec (setTokens c newToken rt'))
            (ret newToken))))"

text \<open>
  \<open>for (let i = 0; i < maxRetries; i++)\<close> with \<open>lastError\<close>, which starts as \<open>null\<close>
  (\<open>None\<close>) and is what the function throws after the loop. \<open>backoff\<close> is
  \<open>if (i < maxRetries - 1) { await sleep(1000 * (i + 1)) }\<close>. The \<open>catch\<close> block stores
  the caught value and then prints \<open>error.response?.status\<close>; that read throws a
  \<open>TypeError\<close> out of the function when the caught value is \<open>null\<close>. The refresh request
  is marked exempt, and the plugin's response hook hands the error of an exempt request on
  as it is.
\<close>

definition backoff :: "core \<Rightarrow> int \<Rightarrow> world \<Rightarrow> world" where
  "backoff c i w = (if i < maxRetries c - 1 then emit (Slept (1000 * (i + 1))) w else w)"

function refresh_loop :: "core \<Rightarrow> int \<Rightarrow> error option \<Rightarrow> (error option, tok) prog" where
  "refresh_loop c i lastError w =
     (if i < maxRetries c then
        (case refresh_attempt c w of
           (Inr newToken, w') \<Rightarrow> (Inr newToken, w')
         | (Inl error, w') \<Rightarrow>
             (case error of
                None \<Rightarrow> (Inl (Some null_response), w')
              | Some e \<Rightarrow> refresh_loop c (i + 1) error (backoff c i w')))
      else (Inl lastError, clearAuth c w))"
  by pat_completeness auto
termination
  by (relation "measure (\<lambda>(c, i, lastError, w). nat (maxRetries c - i))") auto

declare refresh_loop.simps [simp del]

definition refreshAccessToken :: "core \<Rightarrow> (error option, tok) prog" where
  "refreshAccessToken c =
     (\<lambda>w. if \<not> truthy (refreshToken (auth w))
          then (Inl (Some (Error ''No refresh token available'')), clearAuth c w)
          else refresh_loop c 0 None w)"

text \<open>
  The world after the first \<open>k\<close> passes of the loop when each of them failed: each pass
  sends the request and then backs off.
\<close>

fun failures :: "core \<Rightarrow> request \<Rightarrow> nat \<Rightarrow> world \<Rightarrow> world" where
  "failures c req 0 w = w"
| "failures c req (Suc k) w = backoff c (int k) (sent req (failures c req k w))"

section \<open>The TypeScript session manager, where it differs from auth.js\<close>

text \<open>
  The repository carries a TypeScript \<open>createAuthCore\<close> beside auth.js. Its \<open>fetchUser\<close>
  calls \<open>onFetchUser?.(data)\<close> after setting \<open>authenticated\<close>, its \<open>logout\<close> calls
  \<open>onLogout?.()\<close> after \<open>clearAuth()\<close>, and its \<open>loginRouteName\<close> defaults to \<open>login\<close>.
\<close>

definition fetchUser_ts :: "core \<Rightarrow> (error option, body) prog" where
  "fetchUser_ts c =
     tryFinally
       (tryCatch
          (seq (exec (set_loading True))
          (bnd (http_call c (user_request c)) (\<lambda>data.
           seq (exec (set_user (Some data)))
          (seq (exec (set_authenticated True))
          (seq (exec (notify (onFetchUser c) (OnFetchUser data)))
               (ret data))))))
          (\<lambda>error. seq (exec (clearAuth c)) (throw error)))
       (set_loading False)"

definition logout_ts :: "core \<Rightarrow> (error, unit) prog" where
  "logout_ts c =
     tryCatch
       (seq (exec (set_authenticated False))
       (seq (router_replace c
               (logout_location (Some (case loginRouteName c of None \<Rightarrow> ''login'' | Some n \<Rightarrow> n))))
       (seq (exec (clearAuth c))
            (exec (notify (onLogout c) OnLogout)))))
       (\<lambda>error. exec (emit (ConsoleLog error)))"

section \<open>The response interceptor (interceptors.ts)\<close>

text \<open>\<open>`Bearer ${t}`\<close>: an absent value prints as \<open>undefined\<close>.\<close>

definition bearer :: "tok \<Rightarrow> string" where
  "bearer t = ''Bearer '' @ (case t of None \<Rightarrow> ''undefined'' | Some s \<Rightarrow> s)"

text \<open>The request hook: attach the access token when one is held.\<close>

definition onRequest :: "request \<Rightarrow> world \<Rightarrow> request" where
  "onRequest cfg w =
     (if truthy (token (auth w)) then cfg\<lparr>authorization := Some (bearer (token (auth w)))\<rparr>
      else cfg)"

text \<open>
  The error hook of \<open>setupInterceptors(auth, http, {onSessionExpired})\<close>. The refresh
  operation of \<open>auth\<close> and the callable \<open>http\<close> are parameters, as in the source;
  \<open>auth.refreshToken.value\<close> is read from the session state. A rejection carries
  \<open>Some error\<close>, or \<open>None\<close> when the refresh operation threw \<open>null\<close>. The trace records
  each call of the refresh operation and each replay.

  Only \<open>await auth.refreshAccessToken()\<close> is covered by the \<open>try\<close>: the replay is returned
  without \<open>await\<close>, so its rejection is not caught there.
\<close>

definition flag :: "(request \<Rightarrow> bool) \<Rightarrow> request option \<Rightarrow> bool" where
  "flag f originalRequest = (case originalRequest of None \<Rightarrow> False | Some r \<Rightarrow> f r)"

definition onRejected ::
  "bool \<Rightarrow> (error option, tok) prog \<Rightarrow> (request \<Rightarrow> (error option, body) prog) \<Rightarrow> error
     \<Rightarrow> (error option, body) prog" where
  "onRejected onSessionExpired refresh replay error =
     (\<lambda>w. let originalRequest = config error in
       if map_option status (response error) \<noteq> Some 401 then (Inl (Some error), w)
       else if flag skipAuthRefresh originalRequest then (Inl (Some error), w)
       else if flag retry originalRequest
         then (Inl (Some error), notify onSessionExpired OnSessionExpired w)
       else if \<not> truthy (refreshToken (auth w)) then (Inl (Some error), w)
       else
         (let marked = map_option (\<lambda>r. r\<lparr>retry := True\<rparr>) originalRequest in
          case refresh (emit RefreshCalled w) of
            (Inl refreshError, w1) \<Rightarrow>
              (Inl refreshError, notify onSessionExpired OnSessionExpired w1)
          | (Inr newToken, w1) \<Rightarrow>
              (case marked of
                 Some r \<Rightarrow>
                   (let r' = r\<lparr>authorization := Some (bearer newToken)\<rparr>
                    in replay r' (emit (Replayed r') w1))
               | None \<Rightarrow> (Inl (Some error), w1))))"

section \<open>The navigation guard (guards.js)\<close>

record route =
  route_name :: "string option"
  route_path :: string
  route_fullPath :: string
  route_query :: body
  route_matched :: "(string \<Rightarrow> bool) list"

record guard_options =
  guard_loginRouteName :: string
  resetPasswordRouteName :: string
  publicMetaKey :: string
  authMetaKey :: string
  defaultRedirect :: string

definition default_guard_options :: guard_options where
  "default_guard_options =
     \<lparr> guard_loginRouteName = ''login'', resetPasswordRouteName = ''redefinir-senha'',
       publicMetaKey = ''public'', authMetaKey = ''auth'', defaultRedirect = ''/'' \<rparr>"

datatype navigation = Proceed | Redirect location

text \<open>
  The \<open>beforeEach\<close> hook. Each element of \<open>route_matched\<close> gives the truthiness of
  \<open>record.meta[key]\<close>. When \<open>auth.loading\<close> is true the hook first waits (until loading
  is false, or the timeout), and then decides on the session state of that later moment,
  \<open>after_wait\<close>; otherwise it decides on the state it was called in.
\<close>

definition beforeEach :: "guard_options \<Rightarrow> route \<Rightarrow> auth_state \<Rightarrow> auth_state \<Rightarrow> navigation" where
  "beforeEach opts to now after_wait =
     (let requiresAuth = list_ex (\<lambda>record. record (authMetaKey opts)) (route_matched to);
          isPublic = list_ex (\<lambda>record. record (publicMetaKey opts)) (route_matched to);
          isLoginPages = (route_name to = Some (guard_loginRouteName opts)
                          \<or> route_name to = Some (resetPasswordRouteName opts));
          a = (if loading now then after_wait else now)
      in if truthy (route_query to ''logout'') then
           Redirect \<lparr> loc_name = None, loc_path = Some (route_path to),
                      loc_query = (route_query to)(''logout'' := None), loc_replace = True \<rparr>
         else if isLoginPages \<and> authenticated a then
           Redirect \<lparr> loc_name = None,
                      loc_path = js_or (route_query to ''redirect'') (Some (defaultRedirect opts)),
                      loc_query = Map.empty, loc_replace = True \<rparr>
         else if requiresAuth \<and> \<not> authenticated a then
           Redirect \<lparr> loc_name = Some (guard_loginRouteName opts), loc_path = None,
                      loc_query = Map.empty(''redirect'' \<mapsto> route_fullPath to),
                      loc_replace = False \<rparr>
         else Proceed)"

section \<open>Default options and the starting world\<close>

text \<open>The defaults of \<open>createAuthCore\<close> in auth.js, for the collaborators \<open>h\<close> and \<open>r\<close>.\<close>

definition default_core :: "(nat \<Rightarrow> request \<Rightarrow> error option + body) \<Rightarrow> (location \<Rightarrow> error option) \<Rightarrow> core" where
  "default_core h r =
     \<lparr> http = h, router = r, endpoint_login = ''/token/'',
       endpoint_refresh = ''/token/refresh/'', endpoint_user = ''/contexto-inicial/'',
       storage = defaultStorage, tokenKey = ''token'', refreshTokenKey = ''refresh'',
       maxRetries = 3, onError = False, onLogin = False, onLogout = False,
       onFetchUser = False, loginRouteName = None \<rparr>"

definition initial_world :: "storage \<Rightarrow> localStorage \<Rightarrow> world" where
  "initial_world st ls = \<lparr> auth = initial_state st ls, store = ls, net = 0, trace = [] \<rparr>"

section \<open>Example collaborators\<close>

text \<open>
  A server that answers the \<open>n\<close>-th exchange with the \<open>n\<close>-th entry of a script, and with a
  network error once the script is used up; a router that always resolves; two errors.
\<close>

definition unauthorized :: error where
  "unauthorized =
     AxiosError ''ERR_BAD_REQUEST''
       (Some \<lparr>status = 401, detail = Some ''No active account'', message = None\<rparr>) None"

definition network_error :: error where
  "network_error = AxiosError ''ERR_NETWORK'' None None"

definition scripted ::
  "(error option + body) list \<Rightarrow> nat \<Rightarrow> request \<Rightarrow> error option + body" where
  "scripted outcomes n req =
     (if n < length outcomes then outcomes ! n else Inl (Some network_error))"

definition resolving :: "location \<Rightarrow> error option" where
  "resolving l = None"

text \<open>
  A session that is signed in, a refresh operation that succeeds with a new token, one
  that fails, and a replay that succeeds.
\<close>

definition signed_in :: world where
  "signed_in =
     \<lparr> auth = \<lparr> token = Some ''T0'', refreshToken = Some ''R0'',
                user = Some [''name'' \<mapsto> ''ana''], loading = False, authenticated = True \<rparr>,
       store = [''token'' \<mapsto> ''T0'', ''refresh_token'' \<mapsto> ''R0''], net = 0, trace = [] \<rparr>"



definition replay_ok :: "request \<Rightarrow> (error option, body) prog" where
  "replay_ok r = ret [''ok'' \<mapsto> ''yes'']"


definition dashboard :: route where
  "dashboard =
     \<lparr> route_name = Some ''dashboard'', route_path = ''/dashboard'',
       route_fullPath = ''/dashboard?tab=1'', route_query = [''tab'' \<mapsto> ''1''],
       route_matched = [\<lambda>k. k = ''auth''] \<rparr>"

definition login_page :: route where
  "login_page =
     \<lparr> route_name = Some ''login'', route_path = ''/login'',
       route_fullPath = ''/login?redirect=/orders'', route_query = [''redirect'' \<mapsto> ''/orders''],
       route_matched = [\<lambda>k. k = ''public''] \<rparr>"

section \<open>Basic facts about the building blocks\<close>

lemmas prog_defs = ret_def throw_def bnd_def seq_def tryCatch_def tryFinally_def exec_def
  gets_def http_call_def

lemma auth_sent: "auth (sent r w) = auth w"
  by (simp add: sent_def emit_def)

lemma net_sent: "net (sent r w) = Suc (net w)"
  by (simp add: sent_def emit_def)

lemma store_sent: "store (sent r w) = store w"
  by (simp add: sent_def emit_def)

lemma trace_sent: "trace (sent r w) = trace w @ [(HttpSent r, auth w)]"
  by (simp add: sent_def emit_def)

lemma net_set_loading: "net (set_loading b w) = net w"
  by (simp add: set_loading_def)

lemma setTokens_auth:
  "auth (setTokens c a b w) = (auth w)\<lparr>token := a, refreshToken := b\<rparr>"
  by (simp add: setTokens_def persist_def storage_set_def storage_remove_def Let_def
      split: option.splits)

lemma net_setTokens: "net (setTokens c a b w) = net w"
  by (simp add: setTokens_def persist_def storage_set_def storage_remove_def Let_def
      split: option.splits)

lemma trace_setTokens: "trace (setTokens c a b w) = trace w"
  by (simp add: setTokens_def persist_def storage_set_def storage_remove_def Let_def
      split: option.splits)

lemma setTokens_default_store:
  assumes "storage c = defaultStorage"
  shows "store (setTokens c a b w) =
           (store w)(''token'' := (if truthy a then a else None),
                     ''refresh_token'' := (if truthy b then b else None))"
  using assms
  by (auto simp: setTokens_def persist_def storage_set_def storage_remove_def Let_def
      defaultStorage_def truthy_def split: option.splits)

lemma clearAuth_auth:
  "auth (clearAuth c w) =
     (auth w)\<lparr>token := None, refreshToken := None, user := None, authenticated := False\<rparr>"
  by (simp add: clearAuth_def storage_remove_def Let_def split: option.splits)

lemma net_clearAuth: "net (clearAuth c w) = net w"
  by (simp add: clearAuth_def storage_remove_def Let_def split: option.splits)

lemma trace_clearAuth: "trace (clearAuth c w) = trace w"
  by (simp add: clearAuth_def storage_remove_def Let_def split: option.splits)




lemma auth_set_loading: "auth (set_loading b w) = (auth w)\<lparr>loading := b\<rparr>"
  by (simp add: set_loading_def)

lemma store_set_loading: "store (set_loading b w) = store w"
  by (simp add: set_loading_def)

lemma auth_notify: "auth (notify b cb w) = auth w"
  by (simp add: notify_def emit_def)

lemma store_notify: "store (notify b cb w) = store w"
  by (simp add: notify_def emit_def)

lemma trace_set_loading: "trace (set_loading b w) = trace w"
  by (simp add: set_loading_def)

lemma trace_notify:
  "trace (notify b cb w) = trace w @ (if b then [(Called cb, auth w)] else [])"
  by (simp add: notify_def emit_def)

lemma auth_set_user: "auth (set_user u w) = (auth w)\<lparr>user := u\<rparr>"
  by (simp add: set_user_def)

lemma auth_set_authenticated: "auth (set_authenticated b w) = (auth w)\<lparr>authenticated := b\<rparr>"
  by (simp add: set_authenticated_def)

lemma store_set_user: "store (set_user u w) = store w"
  by (simp add: set_user_def)

lemma store_set_authenticated: "store (set_authenticated b w) = store w"
  by (simp add: set_authenticated_def)

lemma trace_set_user: "trace (set_user u w) = trace w"
  by (simp add: set_user_def)

lemma trace_set_authenticated: "trace (set_authenticated b w) = trace w"
  by (simp add: set_authenticated_def)

lemmas auth_simps = auth_sent auth_set_loading auth_notify auth_set_user auth_set_authenticated
  setTokens_auth clearAuth_auth

lemmas trace_simps = trace_sent trace_set_loading trace_notify trace_set_user
  trace_set_authenticated trace_setTokens trace_clearAuth

lemmas store_simps = store_sent store_set_loading store_notify store_set_user
  store_set_authenticated

section \<open>What each operation of the session manager does, case by case\<close>

lemma fetchUser_ok:
  assumes "http c (net w) (user_request c) = Inr data"
  shows "fetchUser c w =
    (Inr data, set_loading False (set_authenticated True (set_user (Some data)
                 (sent (user_request c) (set_loading True w)))))"
  using assms by (simp add: fetchUser_def prog_defs net_set_loading)

lemma fetchUser_fail:
  assumes "http c (net w) (user_request c) = Inl thrown"
  shows "fetchUser c w =
    (Inl thrown, set_loading False (clearAuth c (sent (user_request c) (set_loading True w))))"
  using assms by (simp add: fetchUser_def prog_defs net_set_loading)

lemma login_post_fail:
  assumes "http c (net w) (login_request c cr) = Inl (Some e)"
  shows "login c cr w =
    (Inr (Failure e (login_message e)),
     set_loading False (notify (onError c) (OnError (login_message e) e)
       (sent (login_request c cr) (set_loading True w))))"
  using assms by (simp add: login_def prog_defs net_set_loading Let_def)

lemma login_post_null:
  assumes "http c (net w) (login_request c cr) = Inl None"
  shows "login c cr w =
    (Inl (Some null_response),
     set_loading False (sent (login_request c cr) (set_loading True w)))"
  using assms by (simp add: login_def prog_defs net_set_loading Let_def)

lemma login_fetch_fail:
  assumes "http c (net w) (login_request c cr) = Inr data"
    and "http c (Suc (net w)) (user_request c) = Inl (Some e)"
  shows "login c cr w =
    (Inr (Failure e (login_message e)),
     set_loading False (notify (onError c) (OnError (login_message e) e)
       (set_loading False (clearAuth c (sent (user_request c) (set_loading True
         (setTokens c (extract_access c data) (extract_refresh c data)
           (sent (login_request c cr) (set_loading True w)))))))))"
proof -
  let ?w1 = "setTokens c (extract_access c data) (extract_refresh c data)
           (sent (login_request c cr) (set_loading True w))"
  have n: "net ?w1 = Suc (net w)"
    by (simp add: net_setTokens net_sent net_set_loading)
  have f: "fetchUser c ?w1 =
      (Inl (Some e), set_loading False (clearAuth c (sent (user_request c) (set_loading True ?w1))))"
    by (rule fetchUser_fail) (simp add: n assms(2))
  show ?thesis
    using assms(1) f by (simp add: login_def prog_defs net_set_loading Let_def)
qed

lemma login_fetch_null:
  assumes "http c (net w) (login_request c cr) = Inr data"
    and "http c (Suc (net w)) (user_request c) = Inl None"
  shows "login c cr w =
    (Inl (Some null_response),
     set_loading False (set_loading False (clearAuth c (sent (user_request c) (set_loading True
       (setTokens c (extract_access c data) (extract_refresh c data)
         (sent (login_request c cr) (set_loading True w))))))))"
proof -
  let ?w1 = "setTokens c (extract_access c data) (extract_refresh c data)
           (sent (login_request c cr) (set_loading True w))"
  have n: "net ?w1 = Suc (net w)"
    by (simp add: net_setTokens net_sent net_set_loading)
  have f: "fetchUser c ?w1 =
      (Inl None, set_loading False (clearAuth c (sent (user_request c) (set_loading True ?w1))))"
    by (rule fetchUser_fail) (simp add: n assms(2))
  show ?thesis
    using assms(1) f by (simp add: login_def prog_defs net_set_loading Let_def)
qed

lemma login_ok:
  assumes "http c (net w) (login_request c cr) = Inr data"
    and "http c (Suc (net w)) (user_request c) = Inr u"
  shows "login c cr w =
    (Inr (Success (Some u)),
     set_loading False (notify (onLogin c) (OnLogin (Some u))
       (set_loading False (set_authenticated True (set_user (Some u)
         (sent (user_request c) (set_loading True
           (setTokens c (extract_access c data) (extract_refresh c data)
             (sent (login_request c cr) (set_loading True w))))))))))"
proof -
  let ?w1 = "setTokens c (extract_access c data) (extract_refresh c data)
           (sent (login_request c cr) (set_loading True w))"
  have n: "net ?w1 = Suc (net w)"
    by (simp add: net_setTokens net_sent net_set_loading)
  have f: "fetchUser c ?w1 =
      (Inr u, set_loading False (set_authenticated True (set_user (Some u)
                 (sent (user_request c) (set_loading True ?w1)))))"
    by (rule fetchUser_ok) (simp add: n assms(2))
  have u: "user (auth (set_loading False (set_authenticated True (set_user (Some u) w')))) = Some u"
    for w'
    by (simp add: set_loading_def set_authenticated_def set_user_def)
  have u2: "user (auth (notify b cb w')) = user (auth w')" for b cb w'
    by (simp add: notify_def emit_def)
  show ?thesis
    using assms(1) f by (simp add: login_def prog_defs net_set_loading Let_def u u2)
qed

lemma login_message_rule:
  "login_message e =
     (case response e of
        None \<Rightarrow> ''Erro ao realizar login''
      | Some r \<Rightarrow>
          if truthy (detail r) then the (detail r)
          else if truthy (message r) then the (message r)
          else ''Erro ao realizar login'')"
  by (auto simp: login_message_def js_or_def truthy_def split: option.splits)

section \<open>The token store: storage follows memory\<close>

text \<open>
  C6. After any non-empty sequence of \<open>setTokens\<close> calls on the default storage
  backend, memory holds the pair of the last call, and each storage slot holds the
  value of that pair when it is present (truthy, the test the source makes) and is
  empty when it is absent. No other property of a token is looked at. Read back the
  way \<open>createAuthCore\<close> reads storage (\<open>storage.getToken?.() || null\<close>), the slots give
  the pair held in memory, \<open>token || null\<close> and \<open>refreshToken || null\<close>.
\<close>

theorem setTokens_storage_tracks_memory:
  assumes "storage c = defaultStorage" and "calls \<noteq> []"
  shows "token (auth (fold (\<lambda>p. setTokens c (fst p) (snd p)) calls w)) = fst (last calls)
       \<and> refreshToken (auth (fold (\<lambda>p. setTokens c (fst p) (snd p)) calls w)) = snd (last calls)
       \<and> store (fold (\<lambda>p. setTokens c (fst p) (snd p)) calls w) ''token''
           = (if truthy (fst (last calls)) then fst (last calls) else None)
       \<and> store (fold (\<lambda>p. setTokens c (fst p) (snd p)) calls w) ''refresh_token''
           = (if truthy (snd (last calls)) then snd (last calls) else None)
       \<and> token (initial_state (storage c)
                  (store (fold (\<lambda>p. setTokens c (fst p) (snd p)) calls w)))
           = js_or (token (auth (fold (\<lambda>p. setTokens c (fst p) (snd p)) calls w))) None
       \<and> refreshToken (initial_state (storage c)
                  (store (fold (\<lambda>p. setTokens c (fst p) (snd p)) calls w)))
           = js_or (refreshToken (auth (fold (\<lambda>p. setTokens c (fst p) (snd p)) calls w))) None"
proof -
  from assms(2) have split: "calls = butlast calls @ [last calls]" by simp
  define w0 where "w0 = fold (\<lambda>p. setTokens c (fst p) (snd p)) (butlast calls) w"
  have run: "fold (\<lambda>p. setTokens c (fst p) (snd p)) calls w
               = setTokens c (fst (last calls)) (snd (last calls)) w0"
    unfolding w0_def by (subst split) (simp only: fold_append fold_simps comp_apply id_apply)
  have reread: "token (initial_state defaultStorage ls) = js_or (ls ''token'') None"
    "refreshToken (initial_state defaultStorage ls) = js_or (ls ''refresh_token'') None" for ls
    by (simp_all add: initial_state_def read_slot_def defaultStorage_def)
  show ?thesis
    unfolding run
    by (simp add: setTokens_auth setTokens_default_store [OF assms(1)] assms(1) reread js_or_def)
qed

theorem setTokens_storage_tracks_memory_witness:
  "storage (default_core (\<lambda>n r. Inr Map.empty) (\<lambda>l. None)) = defaultStorage
   \<and> [(Some ''t1'', Some ''r1''), (None, Some ''r2'')] \<noteq> []
   \<and> token (auth (fold (\<lambda>p. setTokens (default_core (\<lambda>n r. Inr Map.empty) (\<lambda>l. None)) (fst p) (snd p))
       [(Some ''t1'', Some ''r1''), (None, Some ''r2'')] (initial_world defaultStorage Map.empty))) = None
   \<and> store (fold (\<lambda>p. setTokens (default_core (\<lambda>n r. Inr Map.empty) (\<lambda>l. None)) (fst p) (snd p))
       [(Some ''t1'', Some ''r1''), (None, Some ''r2'')] (initial_world defaultStorage Map.empty)) ''token'' = None
   \<and> store (fold (\<lambda>p. setTokens (default_core (\<lambda>n r. Inr Map.empty) (\<lambda>l. None)) (fst p) (snd p))
       [(Some ''t1'', Some ''r1''), (None, Some ''r2'')] (initial_world defaultStorage Map.empty)) ''refresh_token'' = Some ''r2''"
  using setTokens_storage_tracks_memory [of "default_core (\<lambda>n r. Inr Map.empty) (\<lambda>l. None)"
      "[(Some ''t1'', Some ''r1''), (None, Some ''r2'')]" "initial_world defaultStorage Map.empty"]
  by (simp add: default_core_def truthy_def)

section \<open>Login\<close>

text \<open>
  What \<open>login\<close> does for each outcome of its two exchanges. When the token POST
  rejects with an error object \<open>e\<close>, and when the POST succeeds and the user GET rejects
  with an error object \<open>e\<close>, the result is \<open>{success: false, error: e, message}\<close>; the
  error callback, when supplied, is called with \<open>(message, e)\<close>; the message is the error
  body's \<open>detail\<close> if present, else its \<open>message\<close> if present, else the default text.
  \<open>loading\<close> is false afterwards in every case. \<open>login\<close> throws exactly when one of the
  two exchanges rejects with \<open>null\<close>, and what it throws then is the \<open>TypeError\<close>.
\<close>

lemma login_resets_loading: "\<not> loading (auth (snd (login c cr w)))"
proof (cases "http c (net w) (login_request c cr)")
  case (Inl thrown)
  show ?thesis
  proof (cases thrown)
    case None
    show ?thesis
      using Inl unfolding None by (simp add: login_post_null auth_set_loading)
  next
    case (Some e)
    show ?thesis
      using Inl unfolding Some by (simp add: login_post_fail auth_set_loading)
  qed
next
  case (Inr d)
  show ?thesis
  proof (cases "http c (Suc (net w)) (user_request c)")
    case (Inl thrown)
    show ?thesis
    proof (cases thrown)
      case None
      show ?thesis
        using Inl unfolding None by (simp add: login_fetch_null [OF Inr] auth_set_loading)
    next
      case (Some e)
      show ?thesis
        using Inl unfolding Some by (simp add: login_fetch_fail [OF Inr] auth_set_loading)
    qed
  next
    case u: (Inr u)
    show ?thesis by (simp add: login_ok [OF Inr u] auth_set_loading)
  qed
qed

lemma login_throws_only_on_null:
  "(fst (login c cr w) = Inl thrown) =
     (thrown = Some null_response
      \<and> (http c (net w) (login_request c cr) = Inl None
         \<or> (\<exists>data. http c (net w) (login_request c cr) = Inr data
                   \<and> http c (Suc (net w)) (user_request c) = Inl None)))"
proof (cases "http c (net w) (login_request c cr)")
  case (Inl rejected)
  show ?thesis
  proof (cases rejected)
    case None
    show ?thesis
      using Inl unfolding None by (auto simp: login_post_null)
  next
    case (Some e)
    show ?thesis
      using Inl unfolding Some by (simp add: login_post_fail)
  qed
next
  case (Inr d)
  show ?thesis
  proof (cases "http c (Suc (net w)) (user_request c)")
    case (Inl rejected)
    show ?thesis
    proof (cases rejected)
      case None
      show ?thesis
        using Inl Inr unfolding None by (auto simp: login_fetch_null [OF Inr])
    next
      case (Some e)
      show ?thesis
        using Inl Inr unfolding Some by (simp add: login_fetch_fail [OF Inr])
    qed
  next
    case u: (Inr u)
    show ?thesis using u Inr by (simp add: login_ok [OF Inr u])
  qed
qed

lemma login_returns_failure_on_error_objects:
  "(http c (net w) (login_request c cr) = Inl (Some e) \<longrightarrow>
        login c cr w =
          (Inr (Failure e (login_message e)),
           set_loading False (notify (onError c) (OnError (login_message e) e)
             (sent (login_request c cr) (set_loading True w)))))
   \<and> (http c (net w) (login_request c cr) = Inr data
        \<and> http c (Suc (net w)) (user_request c) = Inl (Some e) \<longrightarrow>
        login c cr w =
          (Inr (Failure e (login_message e)),
           set_loading False (notify (onError c) (OnError (login_message e) e)
             (set_loading False (clearAuth c (sent (user_request c) (set_loading True
               (setTokens c (extract_access c data) (extract_refresh c data)
                 (sent (login_request c cr) (set_loading True w))))))))))
   \<and> login_message e =
        (case response e of
           None \<Rightarrow> ''Erro ao realizar login''
         | Some r \<Rightarrow>
             if truthy (detail r) then the (detail r)
             else if truthy (message r) then the (message r)
             else ''Erro ao realizar login'')"
  using login_post_fail [of c w cr e] login_fetch_fail [of c w cr data e]
    login_message_rule [of e]
  by blast

text \<open>
  C7. \<open>login\<close> does not turn every failure into a result. Take \<open>maxRetries = 0\<close>, a
  refresh token left in storage, and a server that answers the login request with 401.
  The plugin's response hook then calls \<open>refreshAccessToken\<close>, which makes no attempt and
  throws its initial \<open>lastError\<close>, \<open>null\<close>, and the hook rejects the login request with
  that \<open>null\<close>. \<open>login\<close>, whose POST rejects with \<open>null\<close>, throws a \<open>TypeError\<close>: nothing
  is returned and the error callback, although supplied, is not called. \<open>loading\<close> is
  false afterwards.
\<close>

theorem login_throws_on_null_rejection:
  "fst (onRejected False
          (refreshAccessToken
             ((default_core (scripted [Inl None]) resolving)\<lparr>maxRetries := 0, onError := True\<rparr>))
          replay_ok
          (AxiosError ''ERR_BAD_REQUEST''
             (Some \<lparr>status = 401, detail = Some ''No active account'', message = None\<rparr>)
             (Some (login_request (default_core (scripted [Inl None]) resolving)
                      [''username'' \<mapsto> ''ana''])))
          (initial_world defaultStorage [''refresh_token'' \<mapsto> ''R0''])) = Inl None
   \<and> fst (login ((default_core (scripted [Inl None]) resolving)\<lparr>maxRetries := 0, onError := True\<rparr>)
             [''username'' \<mapsto> ''ana''] (initial_world defaultStorage [''refresh_token'' \<mapsto> ''R0'']))
       = Inl (Some null_response)
   \<and> map fst (trace (snd (login
             ((default_core (scripted [Inl None]) resolving)\<lparr>maxRetries := 0, onError := True\<rparr>)
             [''username'' \<mapsto> ''ana''] (initial_world defaultStorage [''refresh_token'' \<mapsto> ''R0'']))))
       = [HttpSent (login_request (default_core (scripted [Inl None]) resolving)
                      [''username'' \<mapsto> ''ana''])]
   \<and> \<not> loading (auth (snd (login
             ((default_core (scripted [Inl None]) resolving)\<lparr>maxRetries := 0, onError := True\<rparr>)
             [''username'' \<mapsto> ''ana''] (initial_world defaultStorage [''refresh_token'' \<mapsto> ''R0'']))))"
proof -
  let ?c = "(default_core (scripted [Inl None]) resolving)\<lparr>maxRetries := 0, onError := True\<rparr>"
  let ?cr = "[''username'' \<mapsto> ''ana'']"
  let ?w = "initial_world defaultStorage [''refresh_token'' \<mapsto> ''R0'']"
  let ?e = "AxiosError ''ERR_BAD_REQUEST''
             (Some \<lparr>status = 401, detail = Some ''No active account'', message = None\<rparr>)
             (Some (login_request (default_core (scripted [Inl None]) resolving) ?cr))"
  have rt: "refreshToken (auth ?w) = Some ''R0''"
    by (simp add: initial_world_def initial_state_def read_slot_def defaultStorage_def js_or_def
        truthy_def)
  have loop: "refresh_loop ?c 0 None wx = (Inl None, clearAuth ?c wx)" for wx
    by (subst refresh_loop.simps) (simp add: default_core_def)
  have refresh: "refreshAccessToken ?c (emit RefreshCalled ?w)
      = (Inl None, clearAuth ?c (emit RefreshCalled ?w))"
    by (simp add: refreshAccessToken_def loop emit_def rt truthy_def)
  have hook: "fst (onRejected False (refreshAccessToken ?c) replay_ok ?e ?w) = Inl None"
    by (simp add: onRejected_def Let_def flag_def login_request_def rt truthy_def refresh)
  have post: "http ?c (net ?w) (login_request ?c ?cr) = Inl None"
    by (simp add: default_core_def scripted_def initial_world_def)
  have run: "login ?c ?cr ?w =
      (Inl (Some null_response),
       set_loading False (sent (login_request ?c ?cr) (set_loading True ?w)))"
    by (rule login_post_null [OF post])
  have req: "login_request ?c ?cr = login_request (default_core (scripted [Inl None]) resolving) ?cr"
    by (simp add: login_request_def default_core_def)
  have tr: "map fst (trace (snd (login ?c ?cr ?w)))
      = [HttpSent (login_request (default_core (scripted [Inl None]) resolving) ?cr)]"
    by (simp add: run trace_simps req) (simp add: initial_world_def)
  show ?thesis
    using hook tr by (simp add: run auth_set_loading)
qed

lemma extract_access_rule:
  "extract_access c data =
     (if truthy (data (tokenKey c)) then data (tokenKey c)
      else if truthy (data ''access'') then data ''access''
      else data ''token'')"
  by (simp add: extract_access_def js_or_def)

lemma extract_refresh_rule:
  "extract_refresh c data =
     (if truthy (data (refreshTokenKey c)) then data (refreshTokenKey c)
      else if truthy (data ''refresh'') then data ''refresh''
      else data ''refresh_token'')"
  by (simp add: extract_refresh_def js_or_def)

lemma login_sends_user_request_with_tokens:
  assumes "http c (net w) (login_request c cr) = Inr data"
  shows "(HttpSent (user_request c),
          (auth w)\<lparr>loading := True, token := extract_access c data,
                   refreshToken := extract_refresh c data\<rparr>)
         \<in> set (trace (snd (login c cr w)))"
proof (cases "http c (Suc (net w)) (user_request c)")
  case (Inl thrown)
  show ?thesis
  proof (cases thrown)
    case None
    show ?thesis
      using Inl unfolding None
      by (simp add: login_fetch_null [OF assms] trace_simps auth_simps)
  next
    case (Some e)
    show ?thesis
      using Inl unfolding Some
      by (simp add: login_fetch_fail [OF assms] trace_simps auth_simps)
  qed
next
  case (Inr u)
  show ?thesis by (simp add: login_ok [OF assms Inr] trace_simps auth_simps)
qed

text \<open>
  C8. The access token taken from a login response is the field named by \<open>tokenKey\<close>
  if present, else \<open>access\<close> if present, else \<open>token\<close>; the refresh token is the field
  named by \<open>refreshTokenKey\<close> if present, else \<open>refresh\<close> if present, else
  \<open>refresh_token\<close>. For a response with \<open>access = A\<close> and \<open>refresh = R\<close> (both non-empty)
  and neither configured field, \<open>login\<close> calls \<open>setTokens\<close> with \<open>A\<close> and \<open>R\<close>: the user
  request is sent holding that pair, and when it succeeds the pair is what memory and
  the default storage hold at the end.
\<close>

theorem login_token_extraction:
  "extract_access c body =
     (if truthy (body (tokenKey c)) then body (tokenKey c)
      else if truthy (body ''access'') then body ''access''
      else body ''token'')
   \<and> extract_refresh c body =
     (if truthy (body (refreshTokenKey c)) then body (refreshTokenKey c)
      else if truthy (body ''refresh'') then body ''refresh''
      else body ''refresh_token'')
   \<and> (http c (net w) (login_request c cr) = Inr data
        \<and> data (tokenKey c) = None \<and> data (refreshTokenKey c) = None
        \<and> data ''access'' = Some A \<and> data ''refresh'' = Some R \<and> A \<noteq> [] \<and> R \<noteq> [] \<longrightarrow>
        (HttpSent (user_request c),
           (auth w)\<lparr>loading := True, token := Some A, refreshToken := Some R\<rparr>)
          \<in> set (trace (snd (login c cr w)))
        \<and> (http c (Suc (net w)) (user_request c) = Inr u \<longrightarrow>
             fst (login c cr w) = Inr (Success (Some u))
             \<and> token (auth (snd (login c cr w))) = Some A
             \<and> refreshToken (auth (snd (login c cr w))) = Some R
             \<and> (storage c = defaultStorage \<longrightarrow>
                  store (snd (login c cr w)) ''token'' = Some A
                  \<and> store (snd (login c cr w)) ''refresh_token'' = Some R)))"
proof -
  have pair: "extract_access c data = Some A \<and> extract_refresh c data = Some R"
    if "data (tokenKey c) = None" "data (refreshTokenKey c) = None"
       "data ''access'' = Some A" "data ''refresh'' = Some R" "A \<noteq> []" "R \<noteq> []"
    using that by (simp add: extract_access_rule extract_refresh_rule truthy_def)
  have seen: "(HttpSent (user_request c),
           (auth w)\<lparr>loading := True, token := Some A, refreshToken := Some R\<rparr>)
          \<in> set (trace (snd (login c cr w)))"
    if "http c (net w) (login_request c cr) = Inr data"
       "extract_access c data = Some A \<and> extract_refresh c data = Some R"
    using login_sends_user_request_with_tokens [OF that(1)] that(2) by simp
  have final: "fst (login c cr w) = Inr (Success (Some u))
             \<and> token (auth (snd (login c cr w))) = Some A
             \<and> refreshToken (auth (snd (login c cr w))) = Some R
             \<and> (storage c = defaultStorage \<longrightarrow>
                  store (snd (login c cr w)) ''token'' = Some A
                  \<and> store (snd (login c cr w)) ''refresh_token'' = Some R)"
    if "http c (net w) (login_request c cr) = Inr data"
       "extract_access c data = Some A \<and> extract_refresh c data = Some R"
       "A \<noteq> []" "R \<noteq> []"
       "http c (Suc (net w)) (user_request c) = Inr u"
    using that(2,3,4)
    by (simp add: login_ok [OF that(1) that(5)] auth_simps store_simps setTokens_default_store
        truthy_def)
  show ?thesis
    using pair seen final extract_access_rule [of c body] extract_refresh_rule [of c body]
    by blast
qed

theorem login_token_extraction_witness:
  "http ((default_core (scripted [Inr (Map.empty(''access'' \<mapsto> ''A'', ''refresh'' \<mapsto> ''R'')),
                                  Inr (Map.empty(''name'' \<mapsto> ''ana''))]) resolving)
           \<lparr>tokenKey := ''jwt'', refreshTokenKey := ''jwt_refresh''\<rparr>) 0
        (login_request ((default_core (scripted []) resolving)
           \<lparr>tokenKey := ''jwt'', refreshTokenKey := ''jwt_refresh''\<rparr>) (Map.empty(''username'' \<mapsto> ''ana'')))
      = Inr (Map.empty(''access'' \<mapsto> ''A'', ''refresh'' \<mapsto> ''R''))
   \<and> (Map.empty(''access'' \<mapsto> ''A'', ''refresh'' \<mapsto> ''R'')) ''jwt'' = None
   \<and> (Map.empty(''access'' \<mapsto> ''A'', ''refresh'' \<mapsto> ''R'')) ''jwt_refresh'' = None
   \<and> token (auth (snd (login
         ((default_core (scripted [Inr (Map.empty(''access'' \<mapsto> ''A'', ''refresh'' \<mapsto> ''R'')),
                                  Inr (Map.empty(''name'' \<mapsto> ''ana''))]) resolving)
           \<lparr>tokenKey := ''jwt'', refreshTokenKey := ''jwt_refresh''\<rparr>)
         (Map.empty(''username'' \<mapsto> ''ana'')) (initial_world defaultStorage Map.empty)))) = Some ''A''
   \<and> refreshToken (auth (snd (login
         ((default_core (scripted [Inr (Map.empty(''access'' \<mapsto> ''A'', ''refresh'' \<mapsto> ''R'')),
                                  Inr (Map.empty(''name'' \<mapsto> ''ana''))]) resolving)
           \<lparr>tokenKey := ''jwt'', refreshTokenKey := ''jwt_refresh''\<rparr>)
         (Map.empty(''username'' \<mapsto> ''ana'')) (initial_world defaultStorage Map.empty)))) = Some ''R''
   \<and> store (snd (login
         ((default_core (scripted [Inr (Map.empty(''access'' \<mapsto> ''A'', ''refresh'' \<mapsto> ''R'')),
                                  Inr (Map.empty(''name'' \<mapsto> ''ana''))]) resolving)
           \<lparr>tokenKey := ''jwt'', refreshTokenKey := ''jwt_refresh''\<rparr>)
         (Map.empty(''username'' \<mapsto> ''ana'')) (initial_world defaultStorage Map.empty))) ''token''
       = Some ''A''
   \<and> store (snd (login
         ((default_core (scripted [Inr (Map.empty(''access'' \<mapsto> ''A'', ''refresh'' \<mapsto> ''R'')),
                                  Inr (Map.empty(''name'' \<mapsto> ''ana''))]) resolving)
           \<lparr>tokenKey := ''jwt'', refreshTokenKey := ''jwt_refresh''\<rparr>)
         (Map.empty(''username'' \<mapsto> ''ana'')) (initial_world defaultStorage Map.empty))) ''refresh_token''
       = Some ''R''"
  using login_token_extraction [of
      "(default_core (scripted [Inr (Map.empty(''access'' \<mapsto> ''A'', ''refresh'' \<mapsto> ''R'')),
                                  Inr (Map.empty(''name'' \<mapsto> ''ana''))]) resolving)
           \<lparr>tokenKey := ''jwt'', refreshTokenKey := ''jwt_refresh''\<rparr>"
      Map.empty
      "initial_world defaultStorage Map.empty"
      "Map.empty(''username'' \<mapsto> ''ana'')"
      "Map.empty(''access'' \<mapsto> ''A'', ''refresh'' \<mapsto> ''R'')"
      "''A''" "''R''"
      "Map.empty(''name'' \<mapsto> ''ana'')"]
  by (simp add: default_core_def scripted_def initial_world_def login_request_def user_request_def)




section \<open>Token refresh\<close>

lemma auth_backoff: "auth (backoff c i w) = auth w"
  by (simp add: backoff_def emit_def)

lemma net_backoff: "net (backoff c i w) = net w"
  by (simp add: backoff_def emit_def)

lemma store_backoff: "store (backoff c i w) = store w"
  by (simp add: backoff_def emit_def)

lemma trace_backoff:
  "trace (backoff c i w) =
     trace w @ (if i < maxRetries c - 1 then [(Slept (1000 * (i + 1)), auth w)] else [])"
  by (simp add: backoff_def emit_def)

lemma auth_failures: "auth (failures c req k w) = auth w"
  by (induction k) (simp_all add: auth_backoff auth_sent)

lemma net_failures: "net (failures c req k w) = net w + k"
  by (induction k) (simp_all add: net_backoff net_sent)

lemma store_failures: "store (failures c req k w) = store w"
  by (induction k) (simp_all add: store_backoff store_sent)

lemma trace_failures:
  "trace (failures c req k w) =
     trace w @ concat (map (\<lambda>j. (HttpSent req, auth w) #
        (if int j < maxRetries c - 1 then [(Slept (1000 * (int j + 1)), auth w)] else []))
        [0..<k])"
  by (induction k) (simp_all add: trace_backoff trace_sent auth_sent auth_failures)

lemma refresh_attempt_fail:
  assumes "http c (net w) (refresh_request c (refreshToken (auth w))) = Inl thrown"
  shows "refresh_attempt c w = (Inl thrown, sent (refresh_request c (refreshToken (auth w))) w)"
  using assms by (simp add: refresh_attempt_def prog_defs)

lemma refresh_attempt_ok:
  assumes "http c (net w) (refresh_request c (refreshToken (auth w))) = Inr data"
  shows "refresh_attempt c w =
    (Inr (extract_access c data),
     setTokens c (extract_access c data) (refreshToken (auth w))
       (sent (refresh_request c (refreshToken (auth w))) w))"
  using assms by (simp add: refresh_attempt_def prog_defs auth_sent Let_def)

lemma refresh_loop_failures:
  assumes "\<forall>j<k. http c (net w + j) (refresh_request c (refreshToken (auth w))) = Inl (Some (errs j))"
    and "int k \<le> maxRetries c"
  shows "refresh_loop c 0 None w =
    refresh_loop c (int k) (if k = 0 then None else Some (errs (k - 1)))
      (failures c (refresh_request c (refreshToken (auth w))) k w)"
  using assms
proof (induction k)
  case 0
  then show ?case by simp
next
  case (Suc k)
  let ?req = "refresh_request c (refreshToken (auth w))"
  let ?wk = "failures c ?req k w"
  have ih: "refresh_loop c 0 None w =
      refresh_loop c (int k) (if k = 0 then None else Some (errs (k - 1))) ?wk"
    using Suc by simp
  have lt: "int k < maxRetries c" using Suc.prems(2) by simp
  have out: "http c (net ?wk) (refresh_request c (refreshToken (auth ?wk))) = Inl (Some (errs k))"
    using Suc.prems(1) by (simp add: net_failures auth_failures)
  have att: "refresh_attempt c ?wk = (Inl (Some (errs k)), sent ?req ?wk)"
    using refresh_attempt_fail [OF out] by (simp add: auth_failures)
  have step: "refresh_loop c (int k) (if k = 0 then None else Some (errs (k - 1))) ?wk =
      refresh_loop c (int k + 1) (Some (errs k)) (backoff c (int k) (sent ?req ?wk))"
    by (subst refresh_loop.simps) (simp add: lt att)
  show ?case
    unfolding ih step by (simp add: add.commute)
qed

lemma refresh_loop_exhausted:
  assumes "maxRetries c \<le> i"
  shows "refresh_loop c i lastError w = (Inl lastError, clearAuth c w)"
  using assms by (subst refresh_loop.simps) simp

lemma refresh_loop_success:
  assumes "i < maxRetries c"
    and "http c (net w) (refresh_request c (refreshToken (auth w))) = Inr data"
  shows "refresh_loop c i lastError w =
    (Inr (extract_access c data),
     setTokens c (extract_access c data) (refreshToken (auth w))
       (sent (refresh_request c (refreshToken (auth w))) w))"
  using assms(1) refresh_attempt_ok [OF assms(2)] by (subst refresh_loop.simps) simp

lemma refresh_loop_null_rejection:
  assumes "i < maxRetries c"
    and "http c (net w) (refresh_request c (refreshToken (auth w))) = Inl None"
  shows "refresh_loop c i lastError w =
    (Inl (Some null_response), sent (refresh_request c (refreshToken (auth w))) w)"
  using assms(1) refresh_attempt_fail [OF assms(2)] by (subst refresh_loop.simps) simp

lemma refresh_no_token:
  assumes "\<not> truthy (refreshToken (auth w))"
  shows "refreshAccessToken c w =
    (Inl (Some (Error ''No refresh token available'')), clearAuth c w)"
  using assms by (simp add: refreshAccessToken_def)

lemma refresh_no_attempts:
  assumes "truthy (refreshToken (auth w))" and "maxRetries c \<le> 0"
  shows "refreshAccessToken c w = (Inl None, clearAuth c w)"
  using assms by (simp add: refreshAccessToken_def refresh_loop_exhausted)

lemma refresh_succeeds_after:
  assumes "truthy (refreshToken (auth w))"
    and "int k < maxRetries c"
    and "\<forall>j<k. http c (net w + j) (refresh_request c (refreshToken (auth w))) = Inl (Some (errs j))"
    and "http c (net w + k) (refresh_request c (refreshToken (auth w))) = Inr data"
  shows "refreshAccessToken c w =
    (Inr (extract_access c data),
     setTokens c (extract_access c data) (refreshToken (auth w))
       (sent (refresh_request c (refreshToken (auth w)))
         (failures c (refresh_request c (refreshToken (auth w))) k w)))"
proof -
  let ?req = "refresh_request c (refreshToken (auth w))"
  let ?wk = "failures c ?req k w"
  have "refresh_loop c 0 None w =
      refresh_loop c (int k) (if k = 0 then None else Some (errs (k - 1))) ?wk"
    using refresh_loop_failures [OF assms(3)] assms(2) by simp
  also have "\<dots> = (Inr (extract_access c data),
     setTokens c (extract_access c data) (refreshToken (auth ?wk))
       (sent (refresh_request c (refreshToken (auth ?wk))) ?wk))"
    by (rule refresh_loop_success) (simp_all add: assms(2) assms(4) net_failures auth_failures)
  finally show ?thesis
    using assms(1) by (simp add: refreshAccessToken_def auth_failures)
qed

lemma refresh_all_fail:
  assumes "truthy (refreshToken (auth w))"
    and "0 < maxRetries c"
    and "\<forall>j<nat (maxRetries c).
           http c (net w + j) (refresh_request c (refreshToken (auth w))) = Inl (Some (errs j))"
  shows "refreshAccessToken c w =
    (Inl (Some (errs (nat (maxRetries c) - 1))),
     clearAuth c (failures c (refresh_request c (refreshToken (auth w))) (nat (maxRetries c)) w))"
proof -
  let ?n = "nat (maxRetries c)"
  let ?req = "refresh_request c (refreshToken (auth w))"
  have n0: "?n \<noteq> 0" using assms(2) by simp
  have "refresh_loop c 0 None w =
      refresh_loop c (int ?n) (if ?n = 0 then None else Some (errs (?n - 1))) (failures c ?req ?n w)"
    using refresh_loop_failures [OF assms(3)] assms(2) by simp
  also have "\<dots> = (Inl (Some (errs (?n - 1))), clearAuth c (failures c ?req ?n w))"
    using n0 assms(2) by (simp add: refresh_loop_exhausted)
  finally show ?thesis
    using assms(1) by (simp add: refreshAccessToken_def)
qed

lemma trace_failures_below:
  assumes "int k < maxRetries c"
  shows "trace (failures c req k w) =
     trace w @ concat (map (\<lambda>j. [(HttpSent req, auth w), (Slept (1000 * (int j + 1)), auth w)])
        [0..<k])"
proof -
  have "map (\<lambda>j. (HttpSent req, auth w) #
        (if int j < maxRetries c - 1 then [(Slept (1000 * (int j + 1)), auth w)] else []))
        [0..<k]
      = map (\<lambda>j. [(HttpSent req, auth w), (Slept (1000 * (int j + 1)), auth w)]) [0..<k]"
    using assms by (intro map_cong) auto
  then show ?thesis by (simp only: trace_failures)
qed

text \<open>
  C1. Without a refresh token, \<open>refreshAccessToken\<close> clears the session and throws at
  once, with no HTTP exchange. With one, it posts the refresh token to the refresh
  endpoint, marked exempt from refresh, up to \<open>maxRetries\<close> times (3 by default). A
  failed attempt \<open>j\<close> is one that rejects with an error object, \<open>errs j\<close>. When
  the first \<open>k\<close> attempts fail and the next succeeds (\<open>k < maxRetries\<close>), it has waited
  \<open>1000 * (j + 1)\<close> ms after failed attempt \<open>j\<close>, calls \<open>setTokens\<close> with the token taken
  from the response by the login rule and the refresh token it held, and returns that
  token after \<open>k + 1\<close> exchanges. When all \<open>maxRetries\<close> attempts fail, it has waited
  between the attempts but not after the last, clears the session and throws the error
  of the last attempt.
\<close>

theorem refreshAccessToken_contract:
  "(\<not> truthy (refreshToken (auth w)) \<longrightarrow>
      refreshAccessToken c w =
        (Inl (Some (Error ''No refresh token available'')), clearAuth c w)
      \<and> net (clearAuth c w) = net w \<and> trace (clearAuth c w) = trace w)
   \<and> (truthy (refreshToken (auth w)) \<and> int k < maxRetries c
        \<and> (\<forall>j<k. http c (net w + j) (refresh_request c (refreshToken (auth w))) = Inl (Some (errs j)))
        \<and> http c (net w + k) (refresh_request c (refreshToken (auth w))) = Inr data \<longrightarrow>
      refreshAccessToken c w =
        (Inr (extract_access c data),
         setTokens c (extract_access c data) (refreshToken (auth w))
           (sent (refresh_request c (refreshToken (auth w)))
             (failures c (refresh_request c (refreshToken (auth w))) k w)))
      \<and> net (snd (refreshAccessToken c w)) = net w + k + 1
      \<and> trace (snd (refreshAccessToken c w)) =
          trace w
          @ concat (map (\<lambda>j. [(HttpSent (refresh_request c (refreshToken (auth w))), auth w),
                               (Slept (1000 * (int j + 1)), auth w)]) [0..<k])
          @ [(HttpSent (refresh_request c (refreshToken (auth w))), auth w)])
   \<and> (truthy (refreshToken (auth w)) \<and> 0 < maxRetries c
        \<and> (\<forall>j<nat (maxRetries c).
              http c (net w + j) (refresh_request c (refreshToken (auth w))) = Inl (Some (errs j))) \<longrightarrow>
      refreshAccessToken c w =
        (Inl (Some (errs (nat (maxRetries c) - 1))),
         clearAuth c (failures c (refresh_request c (refreshToken (auth w))) (nat (maxRetries c)) w))
      \<and> net (snd (refreshAccessToken c w)) = net w + nat (maxRetries c)
      \<and> trace (snd (refreshAccessToken c w)) =
          trace w
          @ concat (map (\<lambda>j. (HttpSent (refresh_request c (refreshToken (auth w))), auth w) #
              (if int j < maxRetries c - 1 then [(Slept (1000 * (int j + 1)), auth w)] else []))
              [0..<nat (maxRetries c)]))
   \<and> verb (refresh_request c rt) = POST
   \<and> url (refresh_request c rt) = endpoint_refresh c
   \<and> payload (refresh_request c rt) = Map.empty(refreshTokenKey c := rt)
   \<and> skipAuthRefresh (refresh_request c rt)
   \<and> maxRetries (default_core h r) = 3"
proof -
  let ?req = "refresh_request c (refreshToken (auth w))"
  have none: "refreshAccessToken c w =
        (Inl (Some (Error ''No refresh token available'')), clearAuth c w)
      \<and> net (clearAuth c w) = net w \<and> trace (clearAuth c w) = trace w"
    if "\<not> truthy (refreshToken (auth w))"
    using refresh_no_token [OF that] by (simp add: net_clearAuth trace_clearAuth)
  have good: "refreshAccessToken c w =
        (Inr (extract_access c data),
         setTokens c (extract_access c data) (refreshToken (auth w)) (sent ?req (failures c ?req k w)))
      \<and> net (snd (refreshAccessToken c w)) = net w + k + 1
      \<and> trace (snd (refreshAccessToken c w)) =
          trace w
          @ concat (map (\<lambda>j. [(HttpSent ?req, auth w), (Slept (1000 * (int j + 1)), auth w)]) [0..<k])
          @ [(HttpSent ?req, auth w)]"
    if "truthy (refreshToken (auth w))" "int k < maxRetries c"
       "\<forall>j<k. http c (net w + j) ?req = Inl (Some (errs j))"
       "http c (net w + k) ?req = Inr data"
    using refresh_succeeds_after [OF that]
    by (simp add: net_setTokens net_sent net_failures trace_setTokens trace_sent
        trace_failures_below [OF that(2)] auth_failures)
  have bad: "refreshAccessToken c w =
        (Inl (Some (errs (nat (maxRetries c) - 1))),
         clearAuth c (failures c ?req (nat (maxRetries c)) w))
      \<and> net (snd (refreshAccessToken c w)) = net w + nat (maxRetries c)
      \<and> trace (snd (refreshAccessToken c w)) =
          trace w
          @ concat (map (\<lambda>j. (HttpSent ?req, auth w) #
              (if int j < maxRetries c - 1 then [(Slept (1000 * (int j + 1)), auth w)] else []))
              [0..<nat (maxRetries c)])"
    if "truthy (refreshToken (auth w))" "0 < maxRetries c"
       "\<forall>j<nat (maxRetries c). http c (net w + j) ?req = Inl (Some (errs j))"
    using refresh_all_fail [OF that]
    by (simp add: net_clearAuth trace_clearAuth net_failures trace_failures)
  have shape: "verb (refresh_request c rt) = POST
   \<and> url (refresh_request c rt) = endpoint_refresh c
   \<and> payload (refresh_request c rt) = Map.empty(refreshTokenKey c := rt)
   \<and> skipAuthRefresh (refresh_request c rt)
   \<and> maxRetries (default_core h r) = 3"
    by (simp add: refresh_request_def default_core_def)
  show ?thesis
    using none good bad shape by blast
qed

theorem refreshAccessToken_contract_witness:
  "\<not> truthy (refreshToken (auth (initial_world defaultStorage Map.empty)))
   \<and> refreshAccessToken (default_core (scripted []) resolving) (initial_world defaultStorage Map.empty)
       = (Inl (Some (Error ''No refresh token available'')),
          clearAuth (default_core (scripted []) resolving) (initial_world defaultStorage Map.empty))
   \<and> truthy (refreshToken (auth (initial_world defaultStorage [''refresh_token'' \<mapsto> ''R0''])))
   \<and> fst (refreshAccessToken
        (default_core (scripted [Inl (Some network_error), Inl (Some network_error), Inr [''access'' \<mapsto> ''N'']])
           resolving)
        (initial_world defaultStorage [''refresh_token'' \<mapsto> ''R0''])) = Inr (Some ''N'')
   \<and> map fst (trace (snd (refreshAccessToken
        (default_core (scripted [Inl (Some network_error), Inl (Some network_error), Inr [''access'' \<mapsto> ''N'']])
           resolving)
        (initial_world defaultStorage [''refresh_token'' \<mapsto> ''R0'']))))
      = [HttpSent (refresh_request (default_core (scripted []) resolving) (Some ''R0'')),
         Slept 1000,
         HttpSent (refresh_request (default_core (scripted []) resolving) (Some ''R0'')),
         Slept 2000,
         HttpSent (refresh_request (default_core (scripted []) resolving) (Some ''R0''))]
   \<and> fst (refreshAccessToken
        (default_core (scripted [Inl (Some network_error), Inl (Some network_error), Inl (Some unauthorized)]) resolving)
        (initial_world defaultStorage [''refresh_token'' \<mapsto> ''R0''])) = Inl (Some unauthorized)
   \<and> map fst (trace (snd (refreshAccessToken
        (default_core (scripted [Inl (Some network_error), Inl (Some network_error), Inl (Some unauthorized)]) resolving)
        (initial_world defaultStorage [''refresh_token'' \<mapsto> ''R0'']))))
      = [HttpSent (refresh_request (default_core (scripted []) resolving) (Some ''R0'')),
         Slept 1000,
         HttpSent (refresh_request (default_core (scripted []) resolving) (Some ''R0'')),
         Slept 2000,
         HttpSent (refresh_request (default_core (scripted []) resolving) (Some ''R0''))]"
proof -
  let ?wn = "initial_world defaultStorage Map.empty"
  let ?w = "initial_world defaultStorage [''refresh_token'' \<mapsto> ''R0'']"
  let ?cn = "default_core (scripted []) resolving"
  let ?c1 = "default_core (scripted [Inl (Some network_error), Inl (Some network_error), Inr [''access'' \<mapsto> ''N'']])
           resolving"
  let ?c2 = "default_core (scripted [Inl (Some network_error), Inl (Some network_error), Inl (Some unauthorized)]) resolving"
  let ?errs = "\<lambda>j::nat. if j < 2 then network_error else unauthorized"
  have rt0: "\<not> truthy (refreshToken (auth ?wn))"
    by (simp add: initial_world_def initial_state_def read_slot_def defaultStorage_def js_or_def
        truthy_def)
  have rt: "refreshToken (auth ?w) = Some ''R0''"
    by (simp add: initial_world_def initial_state_def read_slot_def defaultStorage_def js_or_def
        truthy_def)
  have n: "net ?w = 0" "trace ?w = []"
    by (simp_all add: initial_world_def)
  have req: "refresh_request ?c1 (Some ''R0'') = refresh_request ?cn (Some ''R0'')"
    "refresh_request ?c2 (Some ''R0'') = refresh_request ?cn (Some ''R0'')"
    by (simp_all add: refresh_request_def default_core_def)
  have max: "maxRetries ?c1 = 3" "maxRetries ?c2 = 3"
    by (simp_all add: default_core_def)
  have h1: "\<forall>j<2. http ?c1 (net ?w + j) (refresh_request ?c1 (refreshToken (auth ?w))) = Inl (Some (?errs j))"
    by (auto simp: default_core_def scripted_def n less_Suc_eq numeral_2_eq_2)
  have h1': "http ?c1 (net ?w + 2) (refresh_request ?c1 (refreshToken (auth ?w))) = Inr [''access'' \<mapsto> ''N'']"
    by (simp add: default_core_def scripted_def n)
  have h2: "\<forall>j<nat (maxRetries ?c2).
      http ?c2 (net ?w + j) (refresh_request ?c2 (refreshToken (auth ?w))) = Inl (Some (?errs j))"
    by (auto simp: default_core_def scripted_def n less_Suc_eq numeral_3_eq_3)
  have ex: "extract_access ?c1 [''access'' \<mapsto> ''N''] = Some ''N''"
    by (simp add: extract_access_def js_or_def truthy_def default_core_def)
  have tr: "truthy (refreshToken (auth ?w))"
    by (simp add: rt truthy_def)
  have lt: "int 2 < maxRetries ?c1" "0 < maxRetries ?c2"
    by (simp_all add: max)
  have a: "refreshAccessToken ?cn ?wn
       = (Inl (Some (Error ''No refresh token available'')), clearAuth ?cn ?wn)"
    using refreshAccessToken_contract [of ?wn ?cn] rt0 by blast
  have b0: "refreshAccessToken ?c1 ?w =
        (Inr (extract_access ?c1 [''access'' \<mapsto> ''N'']),
         setTokens ?c1 (extract_access ?c1 [''access'' \<mapsto> ''N'']) (refreshToken (auth ?w))
           (sent (refresh_request ?c1 (refreshToken (auth ?w)))
             (failures ?c1 (refresh_request ?c1 (refreshToken (auth ?w))) 2 ?w)))
      \<and> net (snd (refreshAccessToken ?c1 ?w)) = net ?w + 2 + 1
      \<and> trace (snd (refreshAccessToken ?c1 ?w)) =
          trace ?w
          @ concat (map (\<lambda>j. [(HttpSent (refresh_request ?c1 (refreshToken (auth ?w))), auth ?w),
                               (Slept (1000 * (int j + 1)), auth ?w)]) [0..<2])
          @ [(HttpSent (refresh_request ?c1 (refreshToken (auth ?w))), auth ?w)]"
    using refreshAccessToken_contract [of ?w ?c1 2 ?errs "[''access'' \<mapsto> ''N'']"] tr lt(1) h1 h1'
    by blast
  have b: "fst (refreshAccessToken ?c1 ?w) = Inr (Some ''N'')
      \<and> map fst (trace (snd (refreshAccessToken ?c1 ?w)))
        = [HttpSent (refresh_request ?cn (Some ''R0'')), Slept 1000,
           HttpSent (refresh_request ?cn (Some ''R0'')), Slept 2000,
           HttpSent (refresh_request ?cn (Some ''R0''))]"
  proof
    show "fst (refreshAccessToken ?c1 ?w) = Inr (Some ''N'')"
      using b0 [THEN conjunct1] by (simp add: ex)
    show "map fst (trace (snd (refreshAccessToken ?c1 ?w)))
        = [HttpSent (refresh_request ?cn (Some ''R0'')), Slept 1000,
           HttpSent (refresh_request ?cn (Some ''R0'')), Slept 2000,
           HttpSent (refresh_request ?cn (Some ''R0''))]"
      using b0 [THEN conjunct2, THEN conjunct2] by (simp add: rt n req numeral_2_eq_2)
  qed
  have c0: "refreshAccessToken ?c2 ?w =
        (Inl (Some (?errs (nat (maxRetries ?c2) - 1))),
         clearAuth ?c2 (failures ?c2 (refresh_request ?c2 (refreshToken (auth ?w))) (nat (maxRetries ?c2)) ?w))
      \<and> net (snd (refreshAccessToken ?c2 ?w)) = net ?w + nat (maxRetries ?c2)
      \<and> trace (snd (refreshAccessToken ?c2 ?w)) =
          trace ?w
          @ concat (map (\<lambda>j. (HttpSent (refresh_request ?c2 (refreshToken (auth ?w))), auth ?w) #
              (if int j < maxRetries ?c2 - 1 then [(Slept (1000 * (int j + 1)), auth ?w)] else []))
              [0..<nat (maxRetries ?c2)])"
    using refreshAccessToken_contract [of ?w ?c2 0 ?errs] tr lt(2) h2
    by blast
  have c: "fst (refreshAccessToken ?c2 ?w) = Inl (Some unauthorized)
      \<and> map fst (trace (snd (refreshAccessToken ?c2 ?w)))
        = [HttpSent (refresh_request ?cn (Some ''R0'')), Slept 1000,
           HttpSent (refresh_request ?cn (Some ''R0'')), Slept 2000,
           HttpSent (refresh_request ?cn (Some ''R0''))]"
  proof
    show "fst (refreshAccessToken ?c2 ?w) = Inl (Some unauthorized)"
      using c0 [THEN conjunct1] by (simp add: max)
    show "map fst (trace (snd (refreshAccessToken ?c2 ?w)))
        = [HttpSent (refresh_request ?cn (Some ''R0'')), Slept 1000,
           HttpSent (refresh_request ?cn (Some ''R0'')), Slept 2000,
           HttpSent (refresh_request ?cn (Some ''R0''))]"
      using c0 [THEN conjunct2, THEN conjunct2]
      by (simp add: rt max n req numeral_3_eq_3)
  qed
  show ?thesis
    using rt0 a b c tr by simp
qed

text \<open>
  C10. When the refresh POST succeeds and the response has no usable token (the
  configured field, \<open>access\<close> and \<open>token\<close> are all missing or empty), the first attempt
  still counts as a success: the absent value is returned, nothing is thrown, and the
  only change to the session is that the access token becomes that absent value and,
  on the default storage, its slot is emptied, while the refresh token stays in memory
  and in storage.
\<close>

theorem refresh_without_token_in_body:
  assumes "truthy (refreshToken (auth w))"
    and "0 < maxRetries c"
    and "http c (net w) (refresh_request c (refreshToken (auth w))) = Inr data"
    and "\<not> truthy (extract_access c data)"
  shows "refreshAccessToken c w =
      (Inr (extract_access c data),
       setTokens c (extract_access c data) (refreshToken (auth w))
         (sent (refresh_request c (refreshToken (auth w))) w))
    \<and> auth (snd (refreshAccessToken c w)) = (auth w)\<lparr>token := extract_access c data\<rparr>
    \<and> (storage c = defaultStorage \<longrightarrow>
         store (snd (refreshAccessToken c w)) ''token'' = None
         \<and> store (snd (refreshAccessToken c w)) ''refresh_token'' = refreshToken (auth w))
    \<and> (data (tokenKey c) = None \<and> data ''access'' = None \<and> data ''token'' = None \<longrightarrow>
         extract_access c data = None)"
proof -
  have run: "refreshAccessToken c w =
      (Inr (extract_access c data),
       setTokens c (extract_access c data) (refreshToken (auth w))
         (sent (refresh_request c (refreshToken (auth w))) w))"
    using refresh_succeeds_after [of w 0 c "\<lambda>j. network_error" data] assms by simp
  show ?thesis
    using assms(1,4)
    by (simp add: run setTokens_auth auth_sent setTokens_default_store store_sent
        extract_access_rule truthy_def)
qed

theorem refresh_without_token_in_body_witness:
  "truthy (refreshToken (auth (initial_world defaultStorage
       [''token'' \<mapsto> ''T0'', ''refresh_token'' \<mapsto> ''R0''])))
   \<and> 0 < maxRetries (default_core (scripted [Inr [''detail'' \<mapsto> ''ok'']]) resolving)
   \<and> \<not> truthy (extract_access (default_core (scripted [Inr [''detail'' \<mapsto> ''ok'']]) resolving)
          [''detail'' \<mapsto> ''ok''])
   \<and> fst (refreshAccessToken (default_core (scripted [Inr [''detail'' \<mapsto> ''ok'']]) resolving)
          (initial_world defaultStorage [''token'' \<mapsto> ''T0'', ''refresh_token'' \<mapsto> ''R0'']))
       = Inr None
   \<and> auth (snd (refreshAccessToken (default_core (scripted [Inr [''detail'' \<mapsto> ''ok'']]) resolving)
          (initial_world defaultStorage [''token'' \<mapsto> ''T0'', ''refresh_token'' \<mapsto> ''R0''])))
       = \<lparr>token = None, refreshToken = Some ''R0'', user = None, loading = True,
          authenticated = False\<rparr>
   \<and> store (snd (refreshAccessToken (default_core (scripted [Inr [''detail'' \<mapsto> ''ok'']]) resolving)
          (initial_world defaultStorage [''token'' \<mapsto> ''T0'', ''refresh_token'' \<mapsto> ''R0''])))
        ''token'' = None
   \<and> store (snd (refreshAccessToken (default_core (scripted [Inr [''detail'' \<mapsto> ''ok'']]) resolving)
          (initial_world defaultStorage [''token'' \<mapsto> ''T0'', ''refresh_token'' \<mapsto> ''R0''])))
        ''refresh_token'' = Some ''R0''"
proof -
  let ?c = "default_core (scripted [Inr [''detail'' \<mapsto> ''ok'']]) resolving"
  let ?w = "initial_world defaultStorage [''token'' \<mapsto> ''T0'', ''refresh_token'' \<mapsto> ''R0'']"
  have st: "auth ?w = \<lparr>token = Some ''T0'', refreshToken = Some ''R0'', user = None,
                       loading = True, authenticated = False\<rparr>"
    by (simp add: initial_world_def initial_state_def read_slot_def defaultStorage_def js_or_def
        truthy_def)
  have h: "http ?c (net ?w) (refresh_request ?c (refreshToken (auth ?w))) = Inr [''detail'' \<mapsto> ''ok'']"
    by (simp add: default_core_def scripted_def initial_world_def)
  have ex: "extract_access ?c [''detail'' \<mapsto> ''ok''] = None"
    by (simp add: extract_access_def js_or_def truthy_def default_core_def)
  have s: "storage ?c = defaultStorage" "0 < maxRetries ?c"
    by (simp_all add: default_core_def)
  have tr: "truthy (refreshToken (auth ?w))"
    by (simp add: st truthy_def)
  have nt: "\<not> truthy (extract_access ?c [''detail'' \<mapsto> ''ok''])"
    by (simp add: ex truthy_def)
  have r: "refreshAccessToken ?c ?w =
      (Inr (extract_access ?c [''detail'' \<mapsto> ''ok'']),
       setTokens ?c (extract_access ?c [''detail'' \<mapsto> ''ok'']) (refreshToken (auth ?w))
         (sent (refresh_request ?c (refreshToken (auth ?w))) ?w))
    \<and> auth (snd (refreshAccessToken ?c ?w)) = (auth ?w)\<lparr>token := extract_access ?c [''detail'' \<mapsto> ''ok'']\<rparr>
    \<and> (storage ?c = defaultStorage \<longrightarrow>
         store (snd (refreshAccessToken ?c ?w)) ''token'' = None
         \<and> store (snd (refreshAccessToken ?c ?w)) ''refresh_token'' = refreshToken (auth ?w))"
    using refresh_without_token_in_body [OF tr s(2) h nt] by blast
  have r1: "fst (refreshAccessToken ?c ?w) = Inr None"
    using r [THEN conjunct1] by (simp add: ex)
  show ?thesis
    using r1 r [THEN conjunct2] tr nt s by (simp add: st ex)
qed

section \<open>The navigation guard\<close>

text \<open>
  C5. With loading already false, the guard decides in this order. A target whose
  \<open>logout\<close> query value is truthy (the test the guard makes) is sent again to the same
  path with that key removed and history replaced, and the location sent again no
  longer carries the marker. Otherwise
  a login or reset-password target under an authenticated session is redirected, with
  history replaced, to the \<open>redirect\<close> query value or else the default redirect.
  Otherwise a target with a matched record carrying the auth meta flag under a session
  that is not authenticated is redirected to the login route with the full path as the
  \<open>redirect\<close> query parameter. Otherwise navigation proceeds.
\<close>

theorem guard_decision_order:
  assumes "\<not> loading now"
  shows "(truthy (route_query to ''logout'') \<longrightarrow>
          beforeEach opts to now later =
            Redirect \<lparr> loc_name = None, loc_path = Some (route_path to),
                       loc_query = (route_query to)(''logout'' := None), loc_replace = True \<rparr>)
       \<and> \<not> truthy (((route_query to)(''logout'' := None)) ''logout'')
       \<and> (\<not> truthy (route_query to ''logout'')
            \<and> (route_name to = Some (guard_loginRouteName opts)
                 \<or> route_name to = Some (resetPasswordRouteName opts))
            \<and> authenticated now \<longrightarrow>
          beforeEach opts to now later =
            Redirect \<lparr> loc_name = None,
                       loc_path = (if truthy (route_query to ''redirect'')
                                   then route_query to ''redirect''
                                   else Some (defaultRedirect opts)),
                       loc_query = Map.empty, loc_replace = True \<rparr>)
       \<and> (\<not> truthy (route_query to ''logout'')
            \<and> (\<exists>record \<in> set (route_matched to). record (authMetaKey opts))
            \<and> \<not> authenticated now \<longrightarrow>
          beforeEach opts to now later =
            Redirect \<lparr> loc_name = Some (guard_loginRouteName opts), loc_path = None,
                       loc_query = [''redirect'' \<mapsto> route_fullPath to],
                       loc_replace = False \<rparr>)
       \<and> (\<not> truthy (route_query to ''logout'')
            \<and> \<not> ((route_name to = Some (guard_loginRouteName opts)
                     \<or> route_name to = Some (resetPasswordRouteName opts))
                    \<and> authenticated now)
            \<and> \<not> ((\<exists>record \<in> set (route_matched to). record (authMetaKey opts))
                    \<and> \<not> authenticated now) \<longrightarrow>
          beforeEach opts to now later = Proceed)"
  using assms
  by (auto simp: beforeEach_def Let_def js_or_def truthy_def list_ex_iff)

theorem guard_decision_order_witness:
  "\<not> loading (auth signed_in)
   \<and> beforeEach default_guard_options (dashboard\<lparr>route_query := [''logout'' \<mapsto> ''true'', ''tab'' \<mapsto> ''1'']\<rparr>)
        (auth signed_in) (auth signed_in)
      = Redirect \<lparr> loc_name = None, loc_path = Some ''/dashboard'',
                   loc_query = [''logout'' \<mapsto> ''true'', ''tab'' \<mapsto> ''1''](''logout'' := None),
                   loc_replace = True \<rparr>
   \<and> beforeEach default_guard_options login_page (auth signed_in) (auth signed_in)
      = Redirect \<lparr> loc_name = None, loc_path = Some ''/orders'', loc_query = Map.empty,
                   loc_replace = True \<rparr>
   \<and> beforeEach default_guard_options dashboard
        ((auth signed_in)\<lparr>authenticated := False\<rparr>) (auth signed_in)
      = Redirect \<lparr> loc_name = Some ''login'', loc_path = None,
                   loc_query = [''redirect'' \<mapsto> ''/dashboard?tab=1''], loc_replace = False \<rparr>
   \<and> beforeEach default_guard_options dashboard (auth signed_in) (auth signed_in) = Proceed"
proof -
  have l: "\<not> loading (auth signed_in)" "\<not> loading ((auth signed_in)\<lparr>authenticated := False\<rparr>)"
    by (simp_all add: signed_in_def)
  note g1 = guard_decision_order [OF l(1),
      of "dashboard\<lparr>route_query := [''logout'' \<mapsto> ''true'', ''tab'' \<mapsto> ''1'']\<rparr>"
         default_guard_options "auth signed_in"]
  note g2 = guard_decision_order [OF l(1), of login_page default_guard_options "auth signed_in"]
  note g3 = guard_decision_order [OF l(2), of dashboard default_guard_options "auth signed_in"]
  note g4 = guard_decision_order [OF l(1), of dashboard default_guard_options "auth signed_in"]
  have a: "beforeEach default_guard_options
        (dashboard\<lparr>route_query := [''logout'' \<mapsto> ''true'', ''tab'' \<mapsto> ''1'']\<rparr>)
        (auth signed_in) (auth signed_in)
      = Redirect \<lparr> loc_name = None, loc_path = Some ''/dashboard'',
                   loc_query = [''logout'' \<mapsto> ''true'', ''tab'' \<mapsto> ''1''](''logout'' := None),
                   loc_replace = True \<rparr>"
    using g1 [THEN conjunct1] by (simp add: dashboard_def truthy_def)
  have b: "beforeEach default_guard_options login_page (auth signed_in) (auth signed_in)
      = Redirect \<lparr> loc_name = None, loc_path = Some ''/orders'', loc_query = Map.empty,
                   loc_replace = True \<rparr>"
    using g2 [THEN conjunct2, THEN conjunct2, THEN conjunct1]
    by (simp add: login_page_def default_guard_options_def signed_in_def truthy_def)
  have c: "beforeEach default_guard_options dashboard
        ((auth signed_in)\<lparr>authenticated := False\<rparr>) (auth signed_in)
      = Redirect \<lparr> loc_name = Some ''login'', loc_path = None,
                   loc_query = [''redirect'' \<mapsto> ''/dashboard?tab=1''], loc_replace = False \<rparr>"
    using g3 [THEN conjunct2, THEN conjunct2, THEN conjunct2, THEN conjunct1]
    by (simp add: dashboard_def default_guard_options_def signed_in_def truthy_def)
  have d: "beforeEach default_guard_options dashboard (auth signed_in) (auth signed_in) = Proceed"
    using g4 [THEN conjunct2, THEN conjunct2, THEN conjunct2, THEN conjunct2]
    by (simp add: dashboard_def default_guard_options_def signed_in_def truthy_def)
  show ?thesis
    using l(1) a b c d by simp
qed

section \<open>Logout and the user fetch\<close>

lemma logout_navigation_ok:
  assumes "router c (logout_location (loginRouteName c)) = None"
  shows "logout c w =
    (Inr (), clearAuth c (emit (RouterReplace (logout_location (loginRouteName c)))
               (set_authenticated False w)))"
  using assms by (simp add: logout_def prog_defs router_replace_def Let_def)

lemma logout_navigation_fails:
  assumes "router c (logout_location (loginRouteName c)) = Some e"
  shows "logout c w =
    (Inr (), emit (ConsoleLog e) (emit (RouterReplace (logout_location (loginRouteName c)))
               (set_authenticated False w)))"
  using assms by (simp add: logout_def prog_defs router_replace_def Let_def)

lemma logout_returns: "fst (logout c w) = Inr ()"
  by (cases "router c (logout_location (loginRouteName c))")
     (simp_all add: logout_navigation_ok logout_navigation_fails)

lemma logout_never_notifies:
  "Called OnLogout \<notin> fst ` set (trace w) \<Longrightarrow> Called OnLogout \<notin> fst ` set (trace (snd (logout c w)))"
  by (cases "router c (logout_location (loginRouteName c))")
     (auto simp: logout_navigation_ok logout_navigation_fails trace_clearAuth emit_def
        set_authenticated_def)

text \<open>
  C3. What \<open>logout\<close> of auth.js does when the logout callback is supplied and the
  navigation resolves: the router is called with the login route and the logout marker
  while \<open>authenticated\<close> is already false and the tokens are still held, then the
  session is cleared, and the call returns normally. The logout callback is not called.
  The TypeScript \<open>logout\<close> on the same input calls it after clearing.
\<close>

theorem logout_js_omits_logout_callback:
  "fst (logout ((default_core (scripted []) resolving)
                  \<lparr>onLogout := True, loginRouteName := Some ''login''\<rparr>) signed_in) = Inr ()
   \<and> trace (snd (logout ((default_core (scripted []) resolving)
                  \<lparr>onLogout := True, loginRouteName := Some ''login''\<rparr>) signed_in))
      = [(RouterReplace (logout_location (Some ''login'')),
          (auth signed_in)\<lparr>authenticated := False\<rparr>)]
   \<and> auth (snd (logout ((default_core (scripted []) resolving)
                  \<lparr>onLogout := True, loginRouteName := Some ''login''\<rparr>) signed_in))
      = \<lparr>token = None, refreshToken = None, user = None, loading = False,
         authenticated = False\<rparr>
   \<and> map fst (trace (snd (logout_ts ((default_core (scripted []) resolving)
                  \<lparr>onLogout := True, loginRouteName := Some ''login''\<rparr>) signed_in)))
      = [RouterReplace (logout_location (Some ''login'')), Called OnLogout]"
  by (simp add: logout_def logout_ts_def prog_defs router_replace_def resolving_def
      default_core_def signed_in_def set_authenticated_def emit_def notify_def clearAuth_def
      storage_remove_def defaultStorage_def Let_def)

lemma fetchUser_never_notifies:
  "trace (snd (fetchUser c w)) = trace w @ [(HttpSent (user_request c), (auth w)\<lparr>loading := True\<rparr>)]"
  by (cases "http c (net w) (user_request c)")
     (simp_all add: fetchUser_ok fetchUser_fail trace_simps auth_simps)

text \<open>
  C4. What \<open>fetchUser\<close> of auth.js does when the fetch-user callback is supplied and
  the GET succeeds: the request is sent while \<open>loading\<close> is true, the body becomes the
  current user, \<open>authenticated\<close> becomes true, \<open>loading\<close> is false afterwards and the
  body is returned. The fetch-user callback is not called. The TypeScript \<open>fetchUser\<close>
  on the same input calls it with the body.
\<close>

theorem fetchUser_js_omits_fetch_user_callback:
  "fst (fetchUser ((default_core (scripted [Inr [''name'' \<mapsto> ''ana'']]) resolving)
                     \<lparr>onFetchUser := True\<rparr>) signed_in) = Inr [''name'' \<mapsto> ''ana'']
   \<and> trace (snd (fetchUser ((default_core (scripted [Inr [''name'' \<mapsto> ''ana'']]) resolving)
                     \<lparr>onFetchUser := True\<rparr>) signed_in))
      = [(HttpSent (user_request (default_core (scripted []) resolving)),
          (auth signed_in)\<lparr>loading := True\<rparr>)]
   \<and> auth (snd (fetchUser ((default_core (scripted [Inr [''name'' \<mapsto> ''ana'']]) resolving)
                     \<lparr>onFetchUser := True\<rparr>) signed_in))
      = \<lparr>token = Some ''T0'', refreshToken = Some ''R0'', user = Some [''name'' \<mapsto> ''ana''],
         loading = False, authenticated = True\<rparr>
   \<and> map fst (trace (snd (fetchUser_ts ((default_core (scripted [Inr [''name'' \<mapsto> ''ana'']]) resolving)
                     \<lparr>onFetchUser := True\<rparr>) signed_in)))
      = [HttpSent (user_request (default_core (scripted []) resolving)),
         Called (OnFetchUser [''name'' \<mapsto> ''ana''])]"
  by (simp add: fetchUser_def fetchUser_ts_def prog_defs scripted_def sent_def
      default_core_def signed_in_def set_authenticated_def set_loading_def set_user_def
      emit_def notify_def user_request_def Let_def)

section \<open>The response interceptor\<close>












end
